theory Spec2Isabelle
  imports Main "HOL-Library.AList" "HOL-Library.Sublist" "HOL-Library.List_Lexorder"
    "HOL-Library.Char_ord"
begin

section \<open>Log sanitization (reportportal.py, lines 22-96)\<close>

text \<open>
  A Python \<open>str\<close> holding log contents is a sequence of Unicode code points (lone
  surrogates included), so log text is a list of code points; \<open>len\<close> is \<open>length\<close>
  and \<open>data[:n]\<close> with \<open>n \<ge> 0\<close> is \<open>take n\<close>. Names, identifiers, paths and
  timestamps are ASCII and are kept as \<open>string\<close>.
\<close>

type_synonym pystr = "nat list"

definition lit :: "string \<Rightarrow> pystr" where
  "lit s = map of_char s"

text \<open>
  A \<open>Size\<close> is a pint quantity; the limits are whole numbers of bytes
  (\<open>settings.size.to('bytes').magnitude\<close>) and are kept as \<open>nat\<close>. How pint prints a
  quantity inside an f-string is not part of the repository: it is the parameter \<open>fmt\<close>.
\<close>

definition DEFAULT_LOG_SIZE_LIMIT :: nat where
  "DEFAULT_LOG_SIZE_LIMIT = 1000000"

definition DEFAULT_TRACEBACK_SIZE_LIMIT :: nat where
  "DEFAULT_TRACEBACK_SIZE_LIMIT = 50000"

record LogFilterSettings =
  size_bytes :: nat
  is_traceback :: bool

definition default_LogFilterSettings :: LogFilterSettings where
  "default_LogFilterSettings = \<lparr>size_bytes = DEFAULT_LOG_SIZE_LIMIT, is_traceback = False\<rparr>"

text \<open>
  The character class of \<open>_filter_invalid_chars\<close>, before its negation: the code
  points U+0020 to U+D7FF, U+0009, U+000A, U+000D, U+E000 to U+FFFD and U+10000 to
  U+10FFFF.
\<close>

definition xml_safe :: "nat \<Rightarrow> bool" where
  "xml_safe c =
     ((0x20 \<le> c \<and> c \<le> 0xD7FF) \<or> c = 0x9 \<or> c = 0xA \<or> c = 0xD
      \<or> (0xE000 \<le> c \<and> c \<le> 0xFFFD) \<or> (0x10000 \<le> c \<and> c \<le> 0x10FFFF))"

definition is_surrogate :: "nat \<Rightarrow> bool" where
  "is_surrogate c = (0xD800 \<le> c \<and> c \<le> 0xDFFF)"

text \<open>
  \<open>re.sub('[cls]+', repl, data)\<close>: scanning from the left, every maximal run of
  characters of the class is replaced by \<open>repl\<close>; the other characters are kept.
\<close>

function re_sub_class_plus :: "(nat \<Rightarrow> bool) \<Rightarrow> pystr \<Rightarrow> pystr \<Rightarrow> pystr" where
  "re_sub_class_plus cls repl [] = []"
| "re_sub_class_plus cls repl (c # cs) =
     (if cls c then repl @ re_sub_class_plus cls repl (dropWhile cls cs)
      else c # re_sub_class_plus cls repl cs)"
  by pat_completeness auto
termination
  by (relation "measure (\<lambda>(cls, repl, xs). length xs)")
     (auto simp: le_imp_less_Suc length_dropWhile_le)

definition filter_invalid_chars :: "pystr \<Rightarrow> LogFilterSettings \<Rightarrow> pystr" where
  "filter_invalid_chars data settings =
     re_sub_class_plus (\<lambda>c. \<not> xml_safe c) [] data"

definition truncation_header :: "(nat \<Rightarrow> pystr) \<Rightarrow> nat \<Rightarrow> LogFilterSettings \<Rightarrow> pystr" where
  "truncation_header fmt sz settings =
     (let variable = (if is_traceback settings
                      then ''TMT_PLUGIN_REPORT_REPORTPORTAL_TRACEBACK_SIZE_LIMIT''
                      else ''TMT_PLUGIN_REPORT_REPORTPORTAL_LOG_SIZE_LIMIT'');
          option = (if is_traceback settings
                    then ''--traceback-size-limit''
                    else ''--log-size-limit'')
      in lit ''WARNING: Uploaded log has been truncated because its size ''
         @ fmt sz
         @ lit '' exceeds tmt reportportal plugin limit of ''
         @ fmt (size_bytes settings)
         @ lit ''. The limit is controlled with '' @ lit option
         @ lit '' plugin option or '' @ lit variable
         @ lit '' environment variable.'' @ [0xA, 0xA])"

text \<open>
  \<open>_filter_log_per_size\<close>: the size is \<open>len(data)\<close>, the number of code points of the
  \<open>str\<close>, labelled as bytes.
\<close>

definition filter_log_per_size :: "(nat \<Rightarrow> pystr) \<Rightarrow> pystr \<Rightarrow> LogFilterSettings \<Rightarrow> pystr" where
  "filter_log_per_size fmt data settings =
     (let sz = length data
      in if sz > size_bytes settings
         then truncation_header fmt sz settings @ take (size_bytes settings) data
         else data)"

definition LOG_FILTERS :: "(nat \<Rightarrow> pystr) \<Rightarrow> (pystr \<Rightarrow> LogFilterSettings \<Rightarrow> pystr) list" where
  "LOG_FILTERS fmt = [filter_log_per_size fmt, filter_invalid_chars]"

definition filter_log :: "(nat \<Rightarrow> pystr) \<Rightarrow> pystr \<Rightarrow> LogFilterSettings option \<Rightarrow> pystr" where
  "filter_log fmt log settings =
     (let settings = (case settings of None \<Rightarrow> default_LogFilterSettings | Some s \<Rightarrow> s)
      in fold (\<lambda>log_filter log. log_filter log settings) (LOG_FILTERS fmt) log)"

text \<open>
  The byte-length the specification speaks of: the number of bytes of the text in UTF-8,
  the encoding in which a log message is sent.
\<close>

definition utf8_width :: "nat \<Rightarrow> nat" where
  "utf8_width c = (if c < 0x80 then 1 else if c < 0x800 then 2 else if c < 0x10000 then 3 else 4)"

definition byte_length :: "pystr \<Rightarrow> nat" where
  "byte_length data = sum_list (map utf8_width data)"

section \<open>Values, errors and the remote service\<close>

text \<open>
  Truthiness of an \<open>Optional[str]\<close>: \<open>None\<close> and the empty string are false. Identifiers
  that the service sends as numbers are kept as the strings they are interpolated as.
\<close>

definition truthy :: "string option \<Rightarrow> bool" where
  "truthy s = (case s of None \<Rightarrow> False | Some v \<Rightarrow> v \<noteq> [])"

definition or_str :: "string option \<Rightarrow> string \<Rightarrow> string" where
  "or_str s dflt = (case s of None \<Rightarrow> dflt | Some v \<Rightarrow> if v = [] then dflt else v)"

text \<open>An \<open>Optional[str]\<close> inside an f-string, and \<open>str(...)\<close> of one.\<close>

definition fstr :: "string option \<Rightarrow> string" where
  "fstr s = (case s of None \<Rightarrow> ''None'' | Some v \<Rightarrow> v)"

datatype report_error =
    NonOkStatus nat string
  | DefectTypeNotDefined string
  | NoUrl
  | NoProject
  | NoToken
  | NoRunData

datatype error =
    ReportError report_error
  | AssertionError
  | KeyError
  | IndexError
  | UnboundLocalError
  | GeneralError
  | YAMLError

text \<open>What \<open>yaml.load\<close> makes of a text: a mapping, another value, or no YAML at all.\<close>

datatype yaml_kind = Mapping | NotAMapping | NotYAML

definition bind_e :: "error + 'a \<Rightarrow> ('a \<Rightarrow> error + 'b) \<Rightarrow> error + 'b" where
  "bind_e m f = (case m of Inl e \<Rightarrow> Inl e | Inr x \<Rightarrow> f x)"

datatype json =
    JNull
  | JBool bool
  | JStr string
  | JText pystr
  | JList "json list"
  | JObj "(string \<times> json) list"

definition jopt :: "string option \<Rightarrow> json" where
  "jopt s = (case s of None \<Rightarrow> JNull | Some v \<Rightarrow> JStr v)"

text \<open>A list of \<open>{'key': k, 'value': v}\<close> dictionaries is a list of pairs.\<close>

definition jattrs :: "(string \<times> string) list \<Rightarrow> json" where
  "jattrs attrs = JList (map (\<lambda>(k, v). JObj [(''key'', JStr k), (''value'', JStr v)]) attrs)"

datatype http_method = GET | POST | PUT

record request =
  meth :: http_method
  req_url :: string
  headers :: "(string \<times> string) list"
  payload :: "json option"

record defect_sub_type =
  locator :: string
  longName :: string

text \<open>
  A response: \<open>response.ok\<close>, the status code, the raw text, and what
  \<open>yaml_to_dict(response.text)\<close> makes of the text: whether it is a mapping, and the
  dictionary in that case, with the scalar entries read with \<open>.get\<close> and, for the
  settings endpoint, the entry \<open>subTypes\<close>, a dictionary from group name to sub-types.
\<close>

record response =
  ok :: bool
  status_code :: nat
  resp_text :: string
  yaml_kind :: yaml_kind
  body :: "(string \<times> string) list"
  subTypes :: "(string \<times> defect_sub_type list) list option"

text \<open>
  \<open>yaml_to_dict\<close> is a helper of \<open>tmt.utils\<close>: it raises \<open>GeneralError\<close> for a text that is
  not a mapping and the error of the parser for a text that is not YAML. What the text of
  a response is, is a part of the response: the field \<open>yaml_kind\<close>.
\<close>

definition yaml_to_dict :: "response \<Rightarrow> error + response" where
  "yaml_to_dict response =
     (case yaml_kind response of
        Mapping \<Rightarrow> Inr response
      | NotAMapping \<Rightarrow> Inl GeneralError
      | NotYAML \<Rightarrow> Inl YAMLError)"

text \<open>
  The service answers the \<open>n\<close>-th request of a session, \<open>n\<close> counted from 0: it can
  answer the same request differently at different times.
\<close>

type_synonym service = "nat \<Rightarrow> request \<Rightarrow> response"

section \<open>Plugin data, plans, tests and results (lines 99-254)\<close>

record ReportReportPortalData =
  url :: "string option"
  token :: "string option"
  project :: "string option"
  launch :: "string option"
  launch_description :: "string option"
  launch_per_plan :: bool
  suite_per_plan :: bool
  upload_to_launch :: "string option"
  upload_to_suite :: "string option"
  launch_rerun :: bool
  defect_type :: "string option"
  log_size_limit :: nat
  traceback_size_limit :: nat
  exclude_variables :: string
  api_version :: string
  artifacts_url :: "string option"
  ssl_verify :: bool
  launch_url :: "string option"
  launch_uuid :: "string option"
  suite_uuid :: "string option"
  test_uuids :: "(nat \<times> string) list"

datatype ResultOutcome = PASS | FAIL | INFO | WARN | ERROR | SKIP

record guest =
  primary_address :: "string option"
  guest_name :: string
  guest_role :: "string option"

record result =
  r_serial_number :: nat
  r_name :: string
  r_result :: ResultOutcome
  start_time :: "string option"
  end_time :: "string option"
  r_log :: "string list"
  r_guest :: guest

record test =
  t_serial_number :: nat
  t_name :: string
  contact :: "string list"
  t_summary :: "string option"
  web_link :: "string option"
  t_id :: "string option"
  environment :: "(string \<times> string) list"

text \<open>
  A plan of the run: its name, summary and context, and the data of the ReportPortal
  phases of its report step (\<open>plan.report.phases(ReportReportPortal)\<close>).
\<close>

record plan =
  plan_name :: string
  plan_summary :: "string option"
  fmf_context :: "(string \<times> string list) list"
  rp_phases :: "ReportReportPortalData list"

text \<open>
  What the plugin reads from its surroundings: the plan it reports
  (\<open>self.step.plan\<close>), the plans of the run (\<open>my_run.plans\<close>, \<open>None\<close> without a run) and the
  position of the plan among them (plans are compared by identity), the results and the
  result and test pairs of the execute step, the log reader (\<open>None\<close> for a
  \<open>FileError\<close>), the failure extraction of a result, \<open>re.search\<close>, \<open>str.lower\<close> (a
  builtin that follows the case tables of Unicode), the clock, and the printing of sizes.
\<close>

record env =
  the_plan :: plan
  my_run :: "plan list option"
  plan_index :: nat
  results :: "result list"
  results_for_tests :: "(result option \<times> test option) list"
  read_log :: "string \<Rightarrow> pystr option"
  failures :: "result \<Rightarrow> pystr \<Rightarrow> pystr"
  re_search :: "string \<Rightarrow> string \<Rightarrow> bool"
  str_lower :: "string \<Rightarrow> string"
  datetime :: string
  fmt_size :: "nat \<Rightarrow> pystr"

section \<open>The plugin (lines 317-437)\<close>

fun TMT_TO_RP_RESULT_STATUS :: "ResultOutcome \<Rightarrow> string" where
  "TMT_TO_RP_RESULT_STATUS PASS = ''PASSED''"
| "TMT_TO_RP_RESULT_STATUS FAIL = ''FAILED''"
| "TMT_TO_RP_RESULT_STATUS INFO = ''SKIPPED''"
| "TMT_TO_RP_RESULT_STATUS WARN = ''FAILED''"
| "TMT_TO_RP_RESULT_STATUS ERROR = ''FAILED''"
| "TMT_TO_RP_RESULT_STATUS SKIP = ''SKIPPED''"

definition warn_mutually_exclusive :: string where
  "warn_mutually_exclusive =
     ''The options '--launch-per-plan' and '--suite-per-plan' are mutually exclusive. ''
     @ ''Default option '--launch-per-plan' is used.''"

definition warn_rerun_ignored :: string where
  "warn_rerun_ignored =
     ''Unexpected option combination: ''
     @ '''--launch-rerun' is ignored when uploading additional tests.''"

definition warn_rerun_launch_per_plan :: string where
  "warn_rerun_launch_per_plan =
     ''Unexpected option combination: '--launch-rerun' ''
     @ ''may cause an unexpected behaviour with launch-per-plan structure''"

text \<open>\<open>check_options\<close> returns the data it has updated and the warnings it has printed.\<close>

definition check_options :: "ReportReportPortalData \<Rightarrow> ReportReportPortalData \<times> string list" where
  "check_options d =
     (let (d, w1) = (if launch_per_plan d \<and> suite_per_plan d
                     then (d\<lparr>suite_per_plan := False\<rparr>, [warn_mutually_exclusive])
                     else (d, []));
          w2 = (if launch_rerun d \<and> (truthy (upload_to_launch d) \<or> truthy (upload_to_suite d))
                then [warn_rerun_ignored] else []);
          w3 = (if \<not> suite_per_plan d \<and> launch_rerun d
                then [warn_rerun_launch_per_plan] else [])
      in (d, w1 @ w2 @ w3))"

definition rp_headers :: "ReportReportPortalData \<Rightarrow> (string \<times> string) list" where
  "rp_headers d =
     [(''Authorization'', ''Bearer '' @ fstr (token d)),
      (''Accept'', ''*/*''),
      (''Content-Type'', ''application/json'')]"

definition rp_url :: "ReportReportPortalData \<Rightarrow> string" where
  "rp_url d = fstr (url d) @ ''/api/'' @ api_version d @ ''/'' @ fstr (project d)"

text \<open>
  \<open>{key: value[0] for key, value in context.items()}\<close>: the first value of every key;
  \<open>value[0]\<close> raises \<open>IndexError\<close> on an empty list. A dictionary is the list of its
  items in insertion order.
\<close>

fun first_values :: "(string \<times> string list) list \<Rightarrow> error + (string \<times> string) list" where
  "first_values [] = Inr []"
| "first_values ((k, vs) # rest) =
     (case vs of
        [] \<Rightarrow> Inl IndexError
      | v # _ \<Rightarrow> bind_e (first_values rest) (\<lambda>items. Inr ((k, v) # items)))"

fun merge_plans :: "plan list \<Rightarrow> error + (string \<times> string) list list" where
  "merge_plans [] = Inr []"
| "merge_plans (p # ps) =
     bind_e (first_values (fmf_context p))
       (\<lambda>m. bind_e (merge_plans ps) (\<lambda>ms. Inr (m # ms)))"

text \<open>One round of the loop of lines 377-382: the entries of the current plan that the
  result so far holds with the same value.\<close>

definition common_step :: "(string \<times> string) list \<Rightarrow> (string \<times> string) list \<Rightarrow> (string \<times> string) list" where
  "common_step current_plan result_dict =
     filter (\<lambda>(key, v). map_of result_dict key = Some v) current_plan"

definition construct_launch_attributes ::
  "plan list option \<Rightarrow> bool \<Rightarrow> (string \<times> string) list \<Rightarrow> error + (string \<times> string) list" where
  "construct_launch_attributes run spp attributes =
     (case run of
        None \<Rightarrow> Inr attributes
      | Some plans \<Rightarrow>
          if \<not> spp then Inr attributes
          else bind_e (merge_plans plans)
                 (\<lambda>merged_plans.
                    case merged_plans of
                      [] \<Rightarrow> Inl IndexError
                    | first # others \<Rightarrow> Inr (fold common_step others first)))"

text \<open>
  The three request helpers differ in the method only: the request is sent, recorded,
  and \<open>handle_response\<close> raises on a response that is not ok.
\<close>

definition rp_api ::
  "service \<Rightarrow> ReportReportPortalData \<Rightarrow> http_method \<Rightarrow> string \<Rightarrow> json option \<Rightarrow> request list
     \<Rightarrow> error + (response \<times> request list)" where
  "rp_api srv d m path js calls =
     (let req = \<lparr>meth = m, req_url = rp_url d @ ''/'' @ path, headers = rp_headers d, payload = js\<rparr>;
          resp = srv (length calls) req
      in if ok resp then Inr (resp, calls @ [req])
         else Inl (ReportError (NonOkStatus (status_code resp) (resp_text resp))))"

definition rp_api_get ::
  "service \<Rightarrow> ReportReportPortalData \<Rightarrow> string \<Rightarrow> request list \<Rightarrow> error + (response \<times> request list)" where
  "rp_api_get srv d path calls = rp_api srv d GET path None calls"

definition rp_api_post ::
  "service \<Rightarrow> ReportReportPortalData \<Rightarrow> string \<Rightarrow> json \<Rightarrow> request list \<Rightarrow> error + (response \<times> request list)" where
  "rp_api_post srv d path js calls = rp_api srv d POST path (Some js) calls"

definition rp_api_put ::
  "service \<Rightarrow> ReportReportPortalData \<Rightarrow> string \<Rightarrow> json \<Rightarrow> request list \<Rightarrow> error + (response \<times> request list)" where
  "rp_api_put srv d path js calls = rp_api srv d PUT path (Some js) calls"

definition groups_to_search :: "string list" where
  "groups_to_search = [''TO_INVESTIGATE'', ''NO_DEFECT'', ''SYSTEM_ISSUE'', ''AUTOMATION_BUG'', ''PRODUCT_BUG'']"

text \<open>
  Lines 399-401, one group: the locator of the first sub-type whose long name is the
  name, both in lower case. \<open>lower\<close> is \<open>str.lower\<close>.
\<close>

definition group_locator ::
  "(string \<Rightarrow> string) \<Rightarrow> defect_sub_type list \<Rightarrow> string \<Rightarrow> string option" where
  "group_locator lower defect_types_list name =
     (let dt_tmp = map locator
                     (filter (\<lambda>dt. lower (longName dt) = lower name) defect_types_list)
      in case dt_tmp of [] \<Rightarrow> None | l # _ \<Rightarrow> Some l)"

text \<open>
  The loop of lines 397-403, with its \<open>break\<close>: \<open>dt_locator\<close> is what the last group
  visited has set. A group missing from the dictionary raises \<open>KeyError\<close>.
\<close>

fun search_groups ::
  "(string \<Rightarrow> string) \<Rightarrow> (string \<times> defect_sub_type list) list \<Rightarrow> string \<Rightarrow> string list
     \<Rightarrow> string option \<Rightarrow> error + string option" where
  "search_groups lower defect_types name [] dt_locator = Inr dt_locator"
| "search_groups lower defect_types name (group_name # rest) dt_locator =
     (case map_of defect_types group_name of
        None \<Rightarrow> Inl KeyError
      | Some defect_types_list \<Rightarrow>
          (let dt_locator = group_locator lower defect_types_list name
           in if truthy dt_locator then Inr dt_locator
              else search_groups lower defect_types name rest dt_locator))"

text \<open>
  Lines 385-408. The result is the locator and the requests sent so far; the request for
  the settings and the reading of its text can both raise.
\<close>

definition get_defect_type_locator ::
  "(string \<Rightarrow> string) \<Rightarrow> service \<Rightarrow> ReportReportPortalData \<Rightarrow> string option \<Rightarrow> request list
     \<Rightarrow> error + (string \<times> request list)" where
  "get_defect_type_locator lower srv d dtype calls =
     (case dtype of
        None \<Rightarrow> Inr (''ti001'', calls)
      | Some name \<Rightarrow>
          if name = [] then Inr (''ti001'', calls)
          else bind_e (rp_api_get srv d ''settings'' calls)
                 (\<lambda>(response, calls).
                    bind_e (yaml_to_dict response)
                      (\<lambda>settings.
                         case subTypes settings of
                           None \<Rightarrow> Inr (''ti001'', calls)
                         | Some defect_types \<Rightarrow>
                             if defect_types = [] then Inr (''ti001'', calls)
                             else bind_e (search_groups lower defect_types name groups_to_search None)
                                    (\<lambda>dt_locator.
                                       case dt_locator of
                                         None \<Rightarrow> Inl (ReportError (DefectTypeNotDefined name))
                                       | Some l \<Rightarrow>
                                           if l = []
                                           then Inl (ReportError (DefectTypeNotDefined name))
                                           else Inr (l, calls)))))"

definition append_description :: "ReportReportPortalData \<Rightarrow> string \<Rightarrow> string" where
  "append_description d curr_description =
     (if truthy (launch_description d)
      then (if curr_description \<noteq> []
            then curr_description @ ''<br>'' @ fstr (launch_description d)
            else fstr (launch_description d))
      else curr_description)"

section \<open>The import (execute_rp_import, lines 439-747)\<close>

text \<open>
  The local variables of \<open>execute_rp_import\<close> that are fixed once line 504 is reached.
  A local variable that has the name of a field of the plugin data is prefixed with
  \<open>l_\<close>.
\<close>

record config =
  l_suite_per_plan :: bool
  l_launch_per_plan :: bool
  l_suite_id :: "string option"
  additional_upload :: bool
  create_test :: bool
  create_suite :: bool
  create_launch :: bool
  l_launch_rerun :: bool
  envar_pattern :: string
  l_defect_type :: string
  attributes :: "(string \<times> string) list"
  launch_attributes :: "(string \<times> string) list"
  l_launch_description :: string
  suite_description :: string

text \<open>
  The plugin data, the requests sent so far, and the local variables that are assigned
  again after line 504. \<open>None\<close> in \<open>l_response\<close> and \<open>l_serial_number\<close> is a variable
  that is not bound yet.
\<close>

record state =
  data :: ReportReportPortalData
  calls :: "request list"
  l_response :: "response option"
  l_launch_time :: string
  l_launch_id :: "string option"
  l_suite_uuid :: "string option"
  l_launch_uuid :: "string option"
  l_launch_name :: string
  l_suite_name :: string
  l_launch_url :: string
  l_test_time :: string
  l_serial_number :: "nat option"

text \<open>Lines 459-462: the topology in effect.\<close>

definition effective_topology :: "ReportReportPortalData \<Rightarrow> bool \<times> bool" where
  "effective_topology d =
     (let spp = suite_per_plan d;
          lpp = launch_per_plan d;
          lpp = (if \<not> lpp \<and> \<not> spp then True else lpp)
      in (lpp, spp))"

text \<open>Line 469, read as a truth value: the only use is \<open>not additional_upload\<close>.\<close>

definition is_additional_upload :: "ReportReportPortalData \<Rightarrow> bool" where
  "is_additional_upload d =
     (truthy (upload_to_suite d) \<or> truthy (upload_to_launch d) \<or> truthy (launch_uuid d))"

text \<open>Lines 470-474: the launch of the first plan of the run, for a later plan.\<close>

definition known_launch_uuid :: "env \<Rightarrow> plan list \<Rightarrow> ReportReportPortalData \<Rightarrow> string option" where
  "known_launch_uuid e plans d =
     (let is_the_first_plan = (plan_index e = 0)
      in if \<not> truthy (launch_uuid d) \<and> suite_per_plan d \<and> \<not> is_the_first_plan
         then (case rp_phases (hd plans) of
                 [] \<Rightarrow> launch_uuid d
               | phase # _ \<Rightarrow> launch_uuid phase)
         else launch_uuid d)"

text \<open>Lines 493-504.\<close>

definition descriptions :: "env \<Rightarrow> ReportReportPortalData \<Rightarrow> string \<times> string" where
  "descriptions e d =
     (let (ld, sd) =
            (if suite_per_plan d
             then (or_str (launch_description d) [],
                   append_description d (or_str (plan_summary (the_plan e)) []))
             else (append_description d (or_str (plan_summary (the_plan e)) []), []))
      in if truthy (artifacts_url d)
         then (ld @ ''<br>'' @ fstr (artifacts_url d), sd @ ''<br>'' @ fstr (artifacts_url d))
         else (ld, sd))"

text \<open>
  Lines 441-504. \<open>plans[0]\<close> raises \<open>IndexError\<close> on a run without plans; \<open>test_time\<close>
  is assigned at line 584, before its first use, with the launch time it starts with
  here.
\<close>

definition prepare :: "env \<Rightarrow> ReportReportPortalData \<Rightarrow> error + (config \<times> state)" where
  "prepare e d =
     (case my_run e of
        None \<Rightarrow> Inl AssertionError
      | Some plans \<Rightarrow>
          (let launch_time =
                 (if results e \<noteq> []
                  then min_list (map (\<lambda>r. or_str (start_time r) (datetime e)) (results e))
                  else datetime e);
               (lpp, spp) = effective_topology d
           in if plans = [] then Inl IndexError
              else
                bind_e (first_values (fmf_context (the_plan e)))
                  (\<lambda>attrs.
                     bind_e (construct_launch_attributes (my_run e) spp attrs)
                       (\<lambda>lattrs.
                          Inr (\<lparr>l_suite_per_plan = spp,
                                l_launch_per_plan = lpp,
                                l_suite_id = upload_to_suite d,
                                additional_upload = is_additional_upload d,
                                create_test = (test_uuids d = []),
                                create_suite =
                                  (spp \<and> \<not> (truthy (suite_uuid d) \<or> truthy (upload_to_suite d))),
                                create_launch =
                                  (\<not> (truthy (known_launch_uuid e plans d)
                                      \<or> truthy (upload_to_launch d)
                                      \<or> truthy (suite_uuid d)
                                      \<or> truthy (upload_to_suite d))),
                                l_launch_rerun = launch_rerun d,
                                envar_pattern =
                                  (if exclude_variables d = [] then ''$^'' else exclude_variables d),
                                l_defect_type = or_str (defect_type d) [],
                                attributes = attrs,
                                launch_attributes = lattrs,
                                l_launch_description = fst (descriptions e d),
                                suite_description = snd (descriptions e d)\<rparr>,
                               \<lparr>data = d,
                                calls = [],
                                l_response = None,
                                l_launch_time = launch_time,
                                l_launch_id = upload_to_launch d,
                                l_suite_uuid = suite_uuid d,
                                l_launch_uuid = known_launch_uuid e plans d,
                                l_launch_name = or_str (launch d) (plan_name (the_plan e)),
                                l_suite_name = [],
                                l_launch_url = [],
                                l_test_time = launch_time,
                                l_serial_number = None\<rparr>)))))"

text \<open>\<open>response = self.rp_api_...(...)\<close>: the request is recorded and the response bound.\<close>

definition assign_response :: "state \<Rightarrow> error + (response \<times> request list) \<Rightarrow> error + state" where
  "assign_response st r =
     bind_e r (\<lambda>(response, calls'). Inr (st\<lparr>calls := calls', l_response := Some response\<rparr>))"

text \<open>
  \<open>yaml_to_dict(response.text).get(key)\<close> on the response bound last; reading a variable
  that is not bound raises \<open>UnboundLocalError\<close>.
\<close>

definition response_get :: "state \<Rightarrow> string \<Rightarrow> error + string option" where
  "response_get st k =
     (case l_response st of
        None \<Rightarrow> Inl UnboundLocalError
      | Some response \<Rightarrow> bind_e (yaml_to_dict response) (\<lambda>dict. Inr (map_of (body dict) k)))"

definition launch_json :: "config \<Rightarrow> state \<Rightarrow> json" where
  "launch_json cfg st =
     JObj [(''name'', JStr (l_launch_name st)),
           (''description'', JStr (l_launch_description cfg)),
           (''attributes'', jattrs (launch_attributes cfg)),
           (''startTime'', JStr (l_launch_time st)),
           (''rerun'', JBool (l_launch_rerun cfg))]"

text \<open>Lines 517-529: a new launch.\<close>

definition new_launch :: "service \<Rightarrow> config \<Rightarrow> state \<Rightarrow> error + state" where
  "new_launch srv cfg st =
     bind_e (assign_response st (rp_api_post srv (data st) ''launch'' (launch_json cfg st) (calls st)))
       (\<lambda>st. bind_e (response_get st ''id'')
                (\<lambda>launch_uuid. Inr (st\<lparr>l_launch_uuid := launch_uuid\<rparr>)))"

text \<open>Lines 533-537: the suite given with \<open>upload_to_suite\<close>.\<close>

definition lookup_suite :: "service \<Rightarrow> config \<Rightarrow> state \<Rightarrow> error + state" where
  "lookup_suite srv cfg st =
     (if truthy (l_suite_id cfg)
      then bind_e (assign_response st
                     (rp_api_get srv (data st) (''item/'' @ fstr (l_suite_id cfg)) (calls st)))
             (\<lambda>st. bind_e (response_get st ''uuid'')
                      (\<lambda>suite_uuid.
                         bind_e (response_get st ''name'')
                           (\<lambda>suite_name.
                              bind_e (response_get st ''launchId'')
                                (\<lambda>launch_id.
                                   Inr (st\<lparr>l_suite_uuid := suite_uuid,
                                          l_suite_name := fstr suite_name,
                                          l_launch_id := launch_id\<rparr>)))))
      else Inr st)"

text \<open>Lines 539-541: the launch known by its id.\<close>

definition lookup_launch :: "service \<Rightarrow> state \<Rightarrow> error + state" where
  "lookup_launch srv st =
     (if truthy (l_launch_id st)
      then bind_e (assign_response st
                     (rp_api_get srv (data st) (''launch/'' @ fstr (l_launch_id st)) (calls st)))
             (\<lambda>st. bind_e (response_get st ''uuid'')
                      (\<lambda>launch_uuid. Inr (st\<lparr>l_launch_uuid := launch_uuid\<rparr>)))
      else Inr st)"

text \<open>Lines 543-545: the id of a launch known by its UUID.\<close>

definition lookup_launch_id :: "service \<Rightarrow> state \<Rightarrow> error + state" where
  "lookup_launch_id srv st =
     (if truthy (l_launch_uuid st) \<and> \<not> truthy (l_launch_id st)
      then bind_e (assign_response st
                     (rp_api_get srv (data st) (''launch/uuid/'' @ fstr (l_launch_uuid st)) (calls st)))
             (\<lambda>st. bind_e (response_get st ''id'')
                      (\<lambda>launch_id. Inr (st\<lparr>l_launch_id := launch_id\<rparr>)))
      else Inr st)"

text \<open>
  Lines 548-557. Line 549 reads \<open>response\<close>, which is not bound when no request has
  been sent; line 553 asserts the launch UUID.
\<close>

definition store_launch :: "config \<Rightarrow> state \<Rightarrow> error + state" where
  "store_launch cfg st =
     bind_e (if \<not> create_launch cfg
             then bind_e (response_get st ''name'')
                    (\<lambda>launch_name. Inr (st\<lparr>l_launch_name := or_str launch_name []\<rparr>))
             else Inr st)
       (\<lambda>st. case l_launch_uuid st of
                None \<Rightarrow> Inl AssertionError
              | Some u \<Rightarrow>
                  Inr (st\<lparr>data := (data st)\<lparr>launch_uuid := Some u\<rparr>,
                         l_launch_url := fstr (url (data st)) @ ''/ui/#'' @ fstr (project (data st))
                                         @ ''/launches/all/'' @ fstr (l_launch_id st)\<rparr>))"

definition launch_phase :: "service \<Rightarrow> config \<Rightarrow> state \<Rightarrow> error + state" where
  "launch_phase srv cfg st =
     bind_e (if create_launch cfg then new_launch srv cfg st
             else bind_e (lookup_suite srv cfg st) (lookup_launch srv))
       (\<lambda>st. bind_e (lookup_launch_id srv st) (store_launch cfg))"

definition suite_json :: "env \<Rightarrow> config \<Rightarrow> state \<Rightarrow> json" where
  "suite_json e cfg st =
     JObj [(''name'', JStr (plan_name (the_plan e))),
           (''description'', JStr (suite_description cfg)),
           (''attributes'', jattrs (attributes cfg)),
           (''startTime'', JStr (l_launch_time st)),
           (''launchUuid'', jopt (l_launch_uuid st)),
           (''type'', JStr ''suite'')]"

text \<open>Lines 559-581: the suite of the plan.\<close>

definition suite_phase :: "service \<Rightarrow> env \<Rightarrow> config \<Rightarrow> state \<Rightarrow> error + state" where
  "suite_phase srv e cfg st =
     bind_e (if create_suite cfg
             then bind_e (assign_response (st\<lparr>l_suite_name := plan_name (the_plan e)\<rparr>)
                            (rp_api_post srv (data st) ''item'' (suite_json e cfg st) (calls st)))
                    (\<lambda>st. bind_e (response_get st ''id'')
                             (\<lambda>suite_uuid.
                                case suite_uuid of
                                  None \<Rightarrow> Inl AssertionError
                                | Some u \<Rightarrow> Inr (st\<lparr>l_suite_uuid := Some u\<rparr>)))
             else Inr st)
       (\<lambda>st. if truthy (l_suite_uuid st)
              then Inr (st\<lparr>data := (data st)\<lparr>suite_uuid := l_suite_uuid st\<rparr>\<rparr>)
              else Inr st)"

text \<open>
  The local variables that every round of the loop over the tests sets anew
  (lines 588-594).
\<close>

record item =
  test_name :: "string option"
  test_description :: string
  test_link :: "string option"
  test_id :: "string option"
  env_vars :: "(string \<times> string) list option"
  item_attributes :: "(string \<times> string) list"

definition guest_attributes :: "guest \<Rightarrow> (string \<times> string) list" where
  "guest_attributes g =
     (if truthy (primary_address g) then [(''guest_primary_address'', fstr (primary_address g))] else [])
     @ (if guest_name g \<noteq> ''default-0'' then [(''guest_name'', guest_name g)] else [])
     @ (if truthy (guest_role g) then [(''guest_role'', fstr (guest_role g))] else [])"

text \<open>Lines 588-613: what a result sets.\<close>

definition item_of_result :: "config \<Rightarrow> result option \<Rightarrow> item" where
  "item_of_result cfg res =
     (let it = \<lparr>test_name = None, test_description = [], test_link = None, test_id = None,
                env_vars = None, item_attributes = attributes cfg\<rparr>
      in case res of
           None \<Rightarrow> it
         | Some r \<Rightarrow> it\<lparr>test_name := Some (r_name r),
                         item_attributes := item_attributes it @ guest_attributes (r_guest r)\<rparr>)"

text \<open>Lines 616-631: what the test adds.\<close>

definition item_of_test :: "env \<Rightarrow> config \<Rightarrow> test option \<Rightarrow> item \<Rightarrow> item" where
  "item_of_test e cfg tst it =
     (case tst of
        None \<Rightarrow> it
      | Some t \<Rightarrow>
          it\<lparr>test_name := (if truthy (test_name it) then test_name it else Some (t_name t)),
             item_attributes :=
               item_attributes it
               @ (case contact t of [] \<Rightarrow> [] | c # _ \<Rightarrow> [(''contact'', c)]),
             test_description :=
               (if truthy (t_summary t) then fstr (t_summary t) else test_description it),
             test_link := (if truthy (web_link t) then web_link t else test_link it),
             test_id := (if truthy (t_id t) then t_id t else test_id it),
             env_vars :=
               Some (filter (\<lambda>(k, v). \<not> re_search e (envar_pattern cfg) k) (environment t))\<rparr>)"

text \<open>Lines 596-600 and 617: the serial number and the start of the test.\<close>

definition bind_serial_number :: "result option \<Rightarrow> test option \<Rightarrow> state \<Rightarrow> state" where
  "bind_serial_number res tst st =
     (let st = (case res of
                  None \<Rightarrow> st
                | Some r \<Rightarrow> st\<lparr>l_serial_number := Some (r_serial_number r),
                                l_test_time := or_str (start_time r) (l_test_time st)\<rparr>)
      in case tst of
           None \<Rightarrow> st
         | Some t \<Rightarrow> st\<lparr>l_serial_number := Some (t_serial_number t)\<rparr>)"

definition item_json :: "config \<Rightarrow> item \<Rightarrow> string \<Rightarrow> state \<Rightarrow> json" where
  "item_json cfg it description st =
     JObj [(''name'', jopt (test_name it)),
           (''description'', JStr description),
           (''attributes'', jattrs (item_attributes it)),
           (''parameters'', (case env_vars it of None \<Rightarrow> JNull | Some vs \<Rightarrow> jattrs vs)),
           (''codeRef'', jopt (test_link it)),
           (''launchUuid'', jopt (l_launch_uuid st)),
           (''type'', JStr ''step''),
           (''testCaseId'', jopt (test_id it)),
           (''startTime'', JStr (l_test_time st))]"

definition item_path :: "state \<Rightarrow> string" where
  "item_path st = ''item'' @ (if truthy (l_suite_uuid st) then ''/'' @ fstr (l_suite_uuid st) else [])"

text \<open>
  Lines 633-658: the test item is created and its identifier stored under the serial
  number, or the stored identifier is read (\<open>KeyError\<close> without one). The result is the
  \<open>item_uuid\<close>.
\<close>

definition create_or_reuse :: "service \<Rightarrow> config \<Rightarrow> item \<Rightarrow> state \<Rightarrow> error + (string \<times> state)" where
  "create_or_reuse srv cfg it st =
     (if create_test cfg
      then (let description =
                  (if (truthy (upload_to_launch (data st)) \<and> l_launch_per_plan cfg)
                      \<or> truthy (upload_to_suite (data st))
                   then append_description (data st) (test_description it)
                   else test_description it)
            in bind_e (assign_response st
                         (rp_api_post srv (data st) (item_path st)
                            (item_json cfg it description st) (calls st)))
                 (\<lambda>st. bind_e (response_get st ''id'')
                          (\<lambda>item_uuid.
                             case item_uuid of
                               None \<Rightarrow> Inl AssertionError
                             | Some item_uuid \<Rightarrow>
                                 (case l_serial_number st of
                                    None \<Rightarrow> Inl UnboundLocalError
                                  | Some serial_number \<Rightarrow>
                                      Inr (item_uuid,
                                           st\<lparr>data := (data st)
                                                \<lparr>test_uuids :=
                                                   AList.update serial_number item_uuid
                                                     (test_uuids (data st))\<rparr>\<rparr>)))))
      else (case l_serial_number st of
              None \<Rightarrow> Inl UnboundLocalError
            | Some serial_number \<Rightarrow>
                (case map_of (test_uuids (data st)) serial_number of
                   None \<Rightarrow> Inl KeyError
                 | Some item_uuid \<Rightarrow> Inr (item_uuid, st))))"

definition log_json :: "pystr \<Rightarrow> string \<Rightarrow> string \<Rightarrow> state \<Rightarrow> json" where
  "log_json message item_uuid level st =
     JObj [(''message'', JText message),
           (''itemUuid'', JStr item_uuid),
           (''launchUuid'', jopt (l_launch_uuid st)),
           (''level'', JStr level),
           (''time'', JStr (l_test_time st))]"

text \<open>
  Lines 667-707, one round for the log at position \<open>index\<close>: a log that cannot be read
  is skipped; the others set the status, are uploaded, and the first position of a failed
  test uploads the failures too.
\<close>

definition upload_log ::
  "service \<Rightarrow> env \<Rightarrow> result \<Rightarrow> string \<Rightarrow> nat \<times> string \<Rightarrow> string \<times> state \<Rightarrow> error + (string \<times> state)" where
  "upload_log srv e r item_uuid ilog sst =
     (case read_log e (snd ilog) of
        None \<Rightarrow> Inr sst
      | Some log \<Rightarrow>
          (let st = snd sst;
               level = (if snd ilog = r_log r ! 0 then ''INFO'' else ''TRACE'');
               status = TMT_TO_RP_RESULT_STATUS (r_result r);
               message = filter_log (fmt_size e) log
                            (Some \<lparr>size_bytes = log_size_limit (data st), is_traceback = False\<rparr>)
           in bind_e (assign_response st
                        (rp_api_post srv (data st) ''log/entry''
                           (log_json message item_uuid level st) (calls st)))
                (\<lambda>st. if fst ilog = 0 \<and> status = ''FAILED''
                       then (let message =
                                   filter_log (fmt_size e) (failures e r log)
                                     (Some \<lparr>size_bytes = traceback_size_limit (data st),
                                            is_traceback = True\<rparr>)
                             in bind_e (assign_response st
                                          (rp_api_post srv (data st) ''log/entry''
                                             (log_json message item_uuid ''ERROR'' st) (calls st)))
                                  (\<lambda>st. Inr (status, st)))
                       else Inr (status, st))))"

fun upload_logs ::
  "service \<Rightarrow> env \<Rightarrow> result \<Rightarrow> string \<Rightarrow> (nat \<times> string) list \<Rightarrow> string \<times> state
     \<Rightarrow> error + (string \<times> state)" where
  "upload_logs srv e r item_uuid [] sst = Inr sst"
| "upload_logs srv e r item_uuid (ilog # rest) sst =
     bind_e (upload_log srv e r item_uuid ilog sst) (upload_logs srv e r item_uuid rest)"

definition finish_json :: "string \<Rightarrow> string \<Rightarrow> state \<Rightarrow> json" where
  "finish_json status issue_type st =
     JObj [(''launchUuid'', jopt (l_launch_uuid st)),
           (''endTime'', JStr (l_test_time st)),
           (''status'', JStr status),
           (''issue'', JObj [(''issueType'', JStr issue_type)])]"

text \<open>
  Lines 660-707: the status starts as \<open>SKIPPED\<close>; a result moves the time to its end and
  has its logs uploaded.
\<close>

definition report_result ::
  "service \<Rightarrow> env \<Rightarrow> result option \<Rightarrow> string \<Rightarrow> state \<Rightarrow> error + (string \<times> state)" where
  "report_result srv e res item_uuid st =
     (let status = ''SKIPPED''
      in case res of
           None \<Rightarrow> Inr (status, st)
         | Some r \<Rightarrow>
             upload_logs srv e r item_uuid (enumerate 0 (r_log r))
               (status, st\<lparr>l_test_time := or_str (end_time r) (l_test_time st)\<rparr>))"

text \<open>
  Lines 709-721: the payload is built first, which resolves the defect type, then the
  item is finished, and the launch time follows the test.
\<close>

definition finish_item ::
  "service \<Rightarrow> env \<Rightarrow> config \<Rightarrow> string \<Rightarrow> string \<Rightarrow> state \<Rightarrow> error + state" where
  "finish_item srv e cfg item_uuid status st =
     bind_e (get_defect_type_locator (str_lower e) srv (data st) (Some (l_defect_type cfg)) (calls st))
       (\<lambda>(issue_type, calls').
          bind_e (assign_response (st\<lparr>calls := calls'\<rparr>)
                    (rp_api_put srv (data st) (''item/'' @ item_uuid)
                       (finish_json status issue_type st) calls'))
            (\<lambda>st. Inr (st\<lparr>l_launch_time := l_test_time st\<rparr>)))"

text \<open>Lines 586-721, one round of the loop over the result and test pairs.\<close>

definition import_test ::
  "service \<Rightarrow> env \<Rightarrow> config \<Rightarrow> result option \<times> test option \<Rightarrow> state \<Rightarrow> error + state" where
  "import_test srv e cfg rt st =
     (let it = item_of_test e cfg (snd rt) (item_of_result cfg (fst rt));
          st = bind_serial_number (fst rt) (snd rt) st
      in bind_e (create_or_reuse srv cfg it st)
           (\<lambda>(item_uuid, st).
              bind_e (report_result srv e (fst rt) item_uuid st)
                (\<lambda>(status, st). finish_item srv e cfg item_uuid status st)))"

fun import_tests ::
  "service \<Rightarrow> env \<Rightarrow> config \<Rightarrow> (result option \<times> test option) list \<Rightarrow> state \<Rightarrow> error + state" where
  "import_tests srv e cfg [] st = Inr st"
| "import_tests srv e cfg (rt # rest) st =
     bind_e (import_test srv e cfg rt st) (import_tests srv e cfg rest)"

text \<open>Lines 723-730.\<close>

definition finish_suite :: "service \<Rightarrow> config \<Rightarrow> state \<Rightarrow> error + state" where
  "finish_suite srv cfg st =
     (if create_suite cfg
      then assign_response st
             (rp_api_put srv (data st) (item_path st)
                (JObj [(''launchUuid'', jopt (l_launch_uuid st)),
                       (''endTime'', JStr (l_launch_time st))])
                (calls st))
      else Inr st)"

text \<open>
  Lines 732-747: on the last plan the defect type is cleared; the launch is finished when
  the condition of line 736 holds, and the launch URL is stored.
\<close>

definition is_the_last_plan :: "env \<Rightarrow> plan list \<Rightarrow> bool" where
  "is_the_last_plan e plans = (plan_index e = length plans - 1)"

definition finishes_launch :: "env \<Rightarrow> plan list \<Rightarrow> config \<Rightarrow> bool" where
  "finishes_launch e plans cfg =
     ((l_launch_per_plan cfg \<or> (l_suite_per_plan cfg \<and> is_the_last_plan e plans))
      \<and> \<not> additional_upload cfg)"

definition finish_launch :: "service \<Rightarrow> env \<Rightarrow> plan list \<Rightarrow> config \<Rightarrow> state \<Rightarrow> error + state" where
  "finish_launch srv e plans cfg st =
     (let st = (if is_the_last_plan e plans
                then st\<lparr>data := (data st)\<lparr>defect_type := None\<rparr>\<rparr>
                else st)
      in bind_e (if finishes_launch e plans cfg
                 then bind_e (assign_response st
                                (rp_api_put srv (data st)
                                   (''launch/'' @ fstr (l_launch_uuid st) @ ''/finish'')
                                   (JObj [(''endTime'', JStr (l_launch_time st))])
                                   (calls st)))
                        (\<lambda>st. bind_e (response_get st ''link'')
                                 (\<lambda>link. Inr (st\<lparr>l_launch_url := fstr link\<rparr>)))
                 else Inr st)
           (\<lambda>st. Inr (st\<lparr>data := (data st)\<lparr>launch_url := Some (l_launch_url st)\<rparr>\<rparr>)))"

definition execute_rp_import :: "service \<Rightarrow> env \<Rightarrow> ReportReportPortalData \<Rightarrow> error + state" where
  "execute_rp_import srv e d =
     bind_e (prepare e d)
       (\<lambda>(cfg, st).
          bind_e (launch_phase srv cfg st)
            (\<lambda>st. bind_e (suite_phase srv e cfg st)
               (\<lambda>st. bind_e (import_tests srv e cfg (results_for_tests e)
                                (st\<lparr>l_test_time := l_launch_time st\<rparr>))
                  (\<lambda>st. bind_e (finish_suite srv cfg st)
                     (finish_launch srv e (case my_run e of None \<Rightarrow> [] | Some plans \<Rightarrow> plans) cfg)))))"

text \<open>
  Lines 759-772 of \<open>go\<close>: the settings that must be there, \<open>rstrip("/")\<close> on the URL, and
  \<open>check_options\<close>. The import runs on the data that comes out.
\<close>

definition rstrip_slash :: "string \<Rightarrow> string" where
  "rstrip_slash s = rev (dropWhile (\<lambda>c. c = CHR ''/'') (rev s))"

definition go_checks :: "env \<Rightarrow> ReportReportPortalData \<Rightarrow> error + (ReportReportPortalData \<times> string list)" where
  "go_checks e d =
     (if \<not> truthy (url d) then Inl (ReportError NoUrl)
      else (let d = d\<lparr>url := Some (rstrip_slash (fstr (url d)))\<rparr>
            in if \<not> truthy (project d) then Inl (ReportError NoProject)
               else if \<not> truthy (token d) then Inl (ReportError NoToken)
               else if my_run e = None then Inl (ReportError NoRunData)
               else Inr (check_options d)))"

section \<open>Notions of the specification and example inputs\<close>

text \<open>
  The first value of a context key of a plan, the pairs that all plans of a run share, and
  a context that is a dictionary (no key twice) with at least one value for every key.
\<close>

definition first_value :: "plan \<Rightarrow> string \<Rightarrow> string option" where
  "first_value p k =
     (case map_of (fmf_context p) k of
        None \<Rightarrow> None
      | Some vs \<Rightarrow> (case vs of [] \<Rightarrow> None | v # _ \<Rightarrow> Some v))"

definition common_attributes :: "plan list \<Rightarrow> (string \<times> string) set" where
  "common_attributes plans = {(k, v). \<forall>p \<in> set plans. first_value p k = Some v}"

definition wf_context :: "plan \<Rightarrow> bool" where
  "wf_context p = (distinct (map fst (fmf_context p)) \<and> list_all (\<lambda>(k, vs). vs \<noteq> []) (fmf_context p))"

text \<open>The three plans of the example of the specification, and a run of them.\<close>

definition example_plan :: "(string \<times> string list) list \<Rightarrow> plan" where
  "example_plan ctx = \<lparr>plan_name = ''/plans/example'', plan_summary = None, fmf_context = ctx, rp_phases = []\<rparr>"

definition three_plans :: "plan list" where
  "three_plans =
     [example_plan [(''a'', [''1'']), (''b'', [''2''])],
      example_plan [(''a'', [''1'']), (''b'', [''3''])],
      example_plan [(''a'', [''1'']), (''b'', [''2''])]]"

text \<open>\<open>str.lower\<close> as it is on ASCII texts, for the examples.\<close>

definition ascii_lower :: "string \<Rightarrow> string" where
  "ascii_lower s =
     map (\<lambda>c. case map_of (zip ''ABCDEFGHIJKLMNOPQRSTUVWXYZ'' ''abcdefghijklmnopqrstuvwxyz'') c of
                None \<Rightarrow> c
              | Some l \<Rightarrow> l) s"

text \<open>The plugin data with the default of every option.\<close>

definition example_data :: ReportReportPortalData where
  "example_data =
     \<lparr>url = Some ''https://rp.example.com'', token = Some ''secret'', project = Some ''demo'',
      launch = None, launch_description = None, launch_per_plan = False,
      suite_per_plan = False, upload_to_launch = None, upload_to_suite = None,
      launch_rerun = False, defect_type = None, log_size_limit = 1000000,
      traceback_size_limit = 50000, exclude_variables = ''^TMT_.*'', api_version = ''v1'',
      artifacts_url = None, ssl_verify = True, launch_url = None, launch_uuid = None,
      suite_uuid = None, test_uuids = []\<rparr>"

definition example_env :: env where
  "example_env =
     \<lparr>the_plan = example_plan [(''a'', [''1'']), (''b'', [''2''])],
      my_run = Some three_plans,
      plan_index = 0,
      results = [],
      results_for_tests = [],
      read_log = (\<lambda>p. None),
      failures = (\<lambda>r log. []),
      re_search = (\<lambda>pattern k. False),
      str_lower = ascii_lower,
      datetime = ''2024-01-01T00:00:00'',
      fmt_size = (\<lambda>n. lit ''N bytes'')\<rparr>"

text \<open>The request that fetches the settings of the project.\<close>

definition settings_request :: "ReportReportPortalData \<Rightarrow> request" where
  "settings_request d =
     \<lparr>meth = GET, req_url = rp_url d @ ''/settings'', headers = rp_headers d, payload = None\<rparr>"

text \<open>
  The search for a defect type, as the claims word it. A sub-type matches a name when its
  long name and the name are equal in lower case; the candidate of a group is the locator
  of its first matching sub-type.
\<close>

definition matches :: "(string \<Rightarrow> string) \<Rightarrow> string \<Rightarrow> defect_sub_type \<Rightarrow> bool" where
  "matches lower name dt = (lower (longName dt) = lower name)"

definition candidate :: "(string \<Rightarrow> string) \<Rightarrow> string \<Rightarrow> defect_sub_type list \<Rightarrow> string option" where
  "candidate lower name sub_types =
     (case find (matches lower name) sub_types of None \<Rightarrow> None | Some dt \<Rightarrow> Some (locator dt))"

text \<open>
  What a group decides when the search reaches it: \<open>KeyError\<close> when the settings do not
  hold the group, its candidate when that is not empty, and nothing otherwise.
\<close>

definition group_verdict ::
  "(string \<Rightarrow> string) \<Rightarrow> string \<Rightarrow> (string \<times> defect_sub_type list) list \<Rightarrow> string
     \<Rightarrow> (error + string) option" where
  "group_verdict lower name dts g =
     (case map_of dts g of
        None \<Rightarrow> Some (Inl KeyError)
      | Some sub_types \<Rightarrow>
          (case candidate lower name sub_types of
             None \<Rightarrow> None
           | Some l \<Rightarrow> if l = [] then None else Some (Inr l)))"

text \<open>
  The search over the five groups in their fixed order: the first verdict decides, and
  the name is not defined when no group has one.
\<close>

definition search_outcome ::
  "(string \<Rightarrow> string) \<Rightarrow> string \<Rightarrow> (string \<times> defect_sub_type list) list \<Rightarrow> error + string" where
  "search_outcome lower name dts =
     (case List.map_filter (group_verdict lower name dts)
             [''TO_INVESTIGATE'', ''NO_DEFECT'', ''SYSTEM_ISSUE'', ''AUTOMATION_BUG'', ''PRODUCT_BUG''] of
        [] \<Rightarrow> Inl (ReportError (DefectTypeNotDefined name))
      | verdict # _ \<Rightarrow> verdict)"

text \<open>
  The resolution of a defect type: without a name the default locator and no request;
  with a name one request for the settings, whose failure and whose unreadable text are
  raised; the default locator for settings without sub-types, and the outcome of the
  search otherwise.
\<close>

definition resolution ::
  "(string \<Rightarrow> string) \<Rightarrow> service \<Rightarrow> ReportReportPortalData \<Rightarrow> string option \<Rightarrow> request list
     \<Rightarrow> error + (string \<times> request list)" where
  "resolution lower srv d dtype cs =
     (case dtype of
        None \<Rightarrow> Inr (''ti001'', cs)
      | Some name \<Rightarrow>
          if name = [] then Inr (''ti001'', cs)
          else (let settings = srv (length cs) (settings_request d);
                    sent = cs @ [settings_request d]
                in if \<not> ok settings
                   then Inl (ReportError (NonOkStatus (status_code settings) (resp_text settings)))
                   else (case yaml_kind settings of
                           NotAMapping \<Rightarrow> Inl GeneralError
                         | NotYAML \<Rightarrow> Inl YAMLError
                         | Mapping \<Rightarrow>
                             (case subTypes settings of
                                None \<Rightarrow> Inr (''ti001'', sent)
                              | Some dts \<Rightarrow>
                                  if dts = [] then Inr (''ti001'', sent)
                                  else (case search_outcome lower name dts of
                                          Inl err \<Rightarrow> Inl err
                                        | Inr l \<Rightarrow> Inr (l, sent))))))"

text \<open>
  A service that answers every request with success and an empty body, and services
  whose settings hold defect sub-types: all five groups, only the first group, and a
  sub-type without a locator; a service that fails, and one whose text is a list.
\<close>

definition ok_response :: response where
  "ok_response =
     \<lparr>ok = True, status_code = 200, resp_text = [], yaml_kind = Mapping, body = [], subTypes = None\<rparr>"

definition bare_service :: service where
  "bare_service = (\<lambda>n req. ok_response)"

definition example_defect_types :: "(string \<times> defect_sub_type list) list" where
  "example_defect_types =
     [(''TO_INVESTIGATE'', [\<lparr>locator = ''ti001'', longName = ''To Investigate''\<rparr>]),
      (''NO_DEFECT'', [\<lparr>locator = ''nd001'', longName = ''No Defect''\<rparr>]),
      (''SYSTEM_ISSUE'', [\<lparr>locator = ''si001'', longName = ''System Issue''\<rparr>]),
      (''AUTOMATION_BUG'', [\<lparr>locator = ''ab001'', longName = ''Automation Bug''\<rparr>]),
      (''PRODUCT_BUG'', [\<lparr>locator = ''pb001'', longName = ''Product Bug''\<rparr>,
                         \<lparr>locator = ''pb002'', longName = ''Idle''\<rparr>])]"

definition settings_service :: service where
  "settings_service = (\<lambda>n req. ok_response\<lparr>subTypes := Some example_defect_types\<rparr>)"

definition one_group_service :: service where
  "one_group_service =
     (\<lambda>n req. ok_response
        \<lparr>subTypes := Some [(''TO_INVESTIGATE'', [\<lparr>locator = ''ti002'', longName = ''Flaky''\<rparr>])]\<rparr>)"

definition blank_locator_service :: service where
  "blank_locator_service =
     (\<lambda>n req. ok_response
        \<lparr>subTypes := Some [(''TO_INVESTIGATE'', [\<lparr>locator = [], longName = ''Idle''\<rparr>]),
                            (''NO_DEFECT'', []), (''SYSTEM_ISSUE'', []), (''AUTOMATION_BUG'', []),
                            (''PRODUCT_BUG'', [])]\<rparr>)"

definition failing_service :: service where
  "failing_service =
     (\<lambda>n req. ok_response\<lparr>ok := False, status_code := 500, resp_text := ''Internal Server Error''\<rparr>)"

definition list_service :: service where
  "list_service = (\<lambda>n req. ok_response\<lparr>resp_text := ''- subTypes'', yaml_kind := NotAMapping\<rparr>)"

section \<open>Properties of the sanitization pipeline\<close>

lemma filter_dropWhile_same:
  "filter (\<lambda>c. \<not> P c) (dropWhile P xs) = filter (\<lambda>c. \<not> P c) xs"
  by (induction xs) auto

lemma re_sub_class_plus_empty:
  "repl = [] \<Longrightarrow> re_sub_class_plus cls repl xs = filter (\<lambda>c. \<not> cls c) xs"
  by (induction cls repl xs rule: re_sub_class_plus.induct)
     (simp_all add: filter_dropWhile_same)

lemma filter_invalid_chars_filter:
  "filter_invalid_chars s settings = filter xml_safe s"
  by (simp add: filter_invalid_chars_def re_sub_class_plus_empty)

lemma xml_safe_not_surrogate: "xml_safe c \<Longrightarrow> \<not> is_surrogate c"
  by (auto simp: xml_safe_def is_surrogate_def)

lemma filter_log_unfold:
  "filter_log fmt log settings =
     filter_invalid_chars
       (filter_log_per_size fmt log
          (case settings of None \<Rightarrow> default_LogFilterSettings | Some s \<Rightarrow> s))
       (case settings of None \<Rightarrow> default_LogFilterSettings | Some s \<Rightarrow> s)"
  by (simp add: filter_log_def LOG_FILTERS_def Let_def)

text \<open>
  C1. The size filter is claimed to truncate exactly when the byte-length of the text
  exceeds the limit. The code compares \<open>len(data)\<close>, the number of code points, with the
  limit: a log of 600 times U+00E9 is 1200 bytes long in UTF-8, more than a limit of
  1000 bytes, and the size filter returns it unchanged, without a banner.
\<close>

theorem filter_log_per_size_counts_code_points:
  "byte_length (replicate 600 0xE9) = 1200
   \<and> size_bytes \<lparr>size_bytes = 1000, is_traceback = False\<rparr> < byte_length (replicate 600 0xE9)
   \<and> filter_log_per_size fmt (replicate 600 0xE9) \<lparr>size_bytes = 1000, is_traceback = False\<rparr>
       = replicate 600 0xE9"
  by (simp add: byte_length_def utf8_width_def filter_log_per_size_def sum_list_replicate)

text \<open>
  C6. The pipeline is the size filter followed by the invalid-character filter, and
  whatever the text, the limit and the flag, every code point of the output lies in the
  XML-safe ranges; in particular the output holds no surrogate code point.
\<close>

theorem filter_log_output_xml_safe:
  "filter_log fmt log settings =
     filter_invalid_chars
       (filter_log_per_size fmt log
          (case settings of None \<Rightarrow> default_LogFilterSettings | Some s \<Rightarrow> s))
       (case settings of None \<Rightarrow> default_LogFilterSettings | Some s \<Rightarrow> s)
   \<and> (\<forall>c \<in> set (filter_log fmt log settings). xml_safe c \<and> \<not> is_surrogate c)"
  by (auto simp: filter_log_unfold filter_invalid_chars_filter xml_safe_not_surrogate)

theorem filter_log_output_xml_safe_witness:
  "filter_log (\<lambda>n. lit ''N'') [0x41, 0xD800, 0x42] (Some \<lparr>size_bytes = 2, is_traceback = False\<rparr>)
     = filter_invalid_chars
         (filter_log_per_size (\<lambda>n. lit ''N'') [0x41, 0xD800, 0x42]
            \<lparr>size_bytes = 2, is_traceback = False\<rparr>)
         \<lparr>size_bytes = 2, is_traceback = False\<rparr>
   \<and> 0xD800 \<in> set (filter_log_per_size (\<lambda>n. lit ''N'') [0x41, 0xD800, 0x42]
                      \<lparr>size_bytes = 2, is_traceback = False\<rparr>)
   \<and> list_all (\<lambda>c. xml_safe c \<and> \<not> is_surrogate c)
         (filter_log (\<lambda>n. lit ''N'') [0x41, 0xD800, 0x42]
            (Some \<lparr>size_bytes = 2, is_traceback = False\<rparr>))"
  using filter_log_output_xml_safe
    [of "\<lambda>n. lit ''N''" "[0x41, 0xD800, 0x42]" "Some \<lparr>size_bytes = 2, is_traceback = False\<rparr>"]
  by (simp add: filter_log_per_size_def list_all_iff)

section \<open>Properties of the option checks and the launch attributes\<close>

lemma bind_e_Inl [simp]: "bind_e (Inl x) f = Inl x"
  by (simp add: bind_e_def)

lemma bind_e_Inr [simp]: "bind_e (Inr x) f = f x"
  by (simp add: bind_e_def)

lemma bind_e_eq_Inr: "bind_e m f = Inr y \<longleftrightarrow> (\<exists>x. m = Inr x \<and> f x = Inr y)"
  by (cases m) auto

lemma check_options_fst:
  "fst (check_options d) = (if launch_per_plan d \<and> suite_per_plan d then d\<lparr>suite_per_plan := False\<rparr> else d)"
  by (simp add: check_options_def Let_def split: prod.splits)

lemma check_options_warns:
  "launch_per_plan d \<and> suite_per_plan d \<Longrightarrow> hd (snd (check_options d)) = warn_mutually_exclusive"
  by (simp add: check_options_def Let_def split: prod.splits)

lemma prepare_topology:
  "prepare e d = Inr (cfg, st) \<Longrightarrow> (l_launch_per_plan cfg, l_suite_per_plan cfg) = effective_topology d"
  by (auto simp: prepare_def Let_def bind_e_eq_Inr split: option.splits if_splits prod.splits)

text \<open>
  C9. After \<open>check_options\<close>, exactly one of launch-per-plan and suite-per-plan is the
  topology in effect: when both flags are requested, suite-per-plan is set to false, the
  first warning printed says so, and launch-per-plan is used; when neither flag is set,
  launch-per-plan is used. The import takes exactly this topology.
\<close>

theorem exactly_one_topology:
  "effective_topology (fst (check_options d)) \<in> {(True, False), (False, True)}
   \<and> (launch_per_plan d \<and> suite_per_plan d \<longrightarrow>
        \<not> suite_per_plan (fst (check_options d))
        \<and> hd (snd (check_options d)) = warn_mutually_exclusive
        \<and> effective_topology (fst (check_options d)) = (True, False))
   \<and> (\<not> launch_per_plan d \<and> \<not> suite_per_plan d \<longrightarrow>
        effective_topology (fst (check_options d)) = (True, False))
   \<and> (prepare e (fst (check_options d)) = Inr (cfg, st) \<longrightarrow>
        (l_launch_per_plan cfg, l_suite_per_plan cfg) = effective_topology (fst (check_options d)))"
proof -
  have one: "effective_topology (fst (check_options d)) \<in> {(True, False), (False, True)}"
    by (auto simp: check_options_fst effective_topology_def Let_def)
  have both: "launch_per_plan d \<and> suite_per_plan d \<longrightarrow>
        \<not> suite_per_plan (fst (check_options d))
        \<and> hd (snd (check_options d)) = warn_mutually_exclusive
        \<and> effective_topology (fst (check_options d)) = (True, False)"
    by (auto simp: check_options_fst check_options_warns effective_topology_def Let_def)
  have neither: "\<not> launch_per_plan d \<and> \<not> suite_per_plan d \<longrightarrow>
        effective_topology (fst (check_options d)) = (True, False)"
    by (auto simp: check_options_fst effective_topology_def Let_def)
  show ?thesis
    using one both neither prepare_topology [of e "fst (check_options d)" cfg st] by blast
qed

lemma first_values_ok:
  "list_all (\<lambda>(k, vs). vs \<noteq> []) ctx \<Longrightarrow>
   first_values ctx = Inr (map (\<lambda>(k, vs). (k, hd vs)) ctx)"
  by (induction ctx rule: first_values.induct) (auto split: list.splits)

lemma merge_plans_ok:
  "list_all wf_context plans \<Longrightarrow>
   merge_plans plans = Inr (map (\<lambda>p. map (\<lambda>(k, vs). (k, hd vs)) (fmf_context p)) plans)"
  by (induction plans) (auto simp: wf_context_def first_values_ok)

lemma common_step_set:
  "distinct (map fst res) \<Longrightarrow> set (common_step cur res) = set cur \<inter> set res"
  by (auto simp: common_step_def)

lemma common_step_distinct:
  "distinct (map fst cur) \<Longrightarrow> distinct (map fst (common_step cur res))"
  by (simp add: common_step_def distinct_map_filter)

lemma fold_common_step:
  "distinct (map fst first) \<Longrightarrow> list_all (\<lambda>m. distinct (map fst m)) others \<Longrightarrow>
   set (fold common_step others first) = set first \<inter> (\<Inter>m \<in> set others. set m)
   \<and> distinct (map fst (fold common_step others first))"
proof (induction others arbitrary: first)
  case Nil
  then show ?case by simp
next
  case (Cons m others)
  have d: "distinct (map fst (common_step m first))"
    using Cons.prems by (simp add: common_step_distinct)
  have s: "set (common_step m first) = set m \<inter> set first"
    using Cons.prems by (simp add: common_step_set)
  show ?case
    using Cons.IH [OF d] Cons.prems s by auto
qed

lemma first_value_mem:
  "wf_context p \<Longrightarrow>
   (k, v) \<in> set (map (\<lambda>(k, vs). (k, hd vs)) (fmf_context p)) \<longleftrightarrow> first_value p k = Some v"
proof -
  assume wf: "wf_context p"
  have dist: "distinct (map fst (fmf_context p))" using wf by (simp add: wf_context_def)
  have ne: "\<And>k vs. (k, vs) \<in> set (fmf_context p) \<Longrightarrow> vs \<noteq> []"
    using wf by (auto simp: wf_context_def list_all_iff)
  show ?thesis
  proof
    assume "(k, v) \<in> set (map (\<lambda>(k, vs). (k, hd vs)) (fmf_context p))"
    then obtain vs where m: "(k, vs) \<in> set (fmf_context p)" and v: "v = hd vs" by auto
    from m dist have "map_of (fmf_context p) k = Some vs" by simp
    with ne [OF m] v show "first_value p k = Some v"
      by (cases vs) (simp_all add: first_value_def)
  next
    assume "first_value p k = Some v"
    then obtain vs where m: "map_of (fmf_context p) k = Some vs" and v: "vs \<noteq> []" "v = hd vs"
      by (auto simp: first_value_def split: option.splits list.splits)
    from m have "(k, vs) \<in> set (fmf_context p)" by (rule map_of_SomeD)
    with v show "(k, v) \<in> set (map (\<lambda>(k, vs). (k, hd vs)) (fmf_context p))" by force
  qed
qed

lemma map_fst_first_values: "map fst (map (\<lambda>(k, vs). (k, hd vs)) ctx) = map fst ctx"
  by (induction ctx) auto

lemma construct_launch_attributes_common:
  assumes wf: "list_all wf_context plans" and ne: "plans \<noteq> []"
  shows "\<exists>attrs. construct_launch_attributes (Some plans) True a = Inr attrs
           \<and> set attrs = common_attributes plans \<and> distinct (map fst attrs)"
proof -
  let ?fv = "\<lambda>p. map (\<lambda>(k, vs). (k, hd vs)) (fmf_context p)"
  obtain p ps where plans: "plans = p # ps" using ne by (cases plans) auto
  have dist: "\<And>q. q \<in> set plans \<Longrightarrow> distinct (map fst (?fv q))"
  proof -
    fix q assume "q \<in> set plans"
    then have "wf_context q" using wf by (simp add: list_all_iff)
    then show "distinct (map fst (?fv q))"
      unfolding map_fst_first_values by (simp add: wf_context_def)
  qed
  have mem: "\<And>q k v. q \<in> set plans \<Longrightarrow> ((k, v) \<in> set (?fv q)) = (first_value q k = Some v)"
    using wf first_value_mem by (simp add: list_all_iff)
  let ?r = "fold common_step (map ?fv ps) (?fv p)"
  have run: "construct_launch_attributes (Some plans) True a = Inr ?r"
    using merge_plans_ok [OF wf] by (simp add: construct_launch_attributes_def plans)
  have f: "set ?r = set (?fv p) \<inter> (\<Inter>m \<in> set (map ?fv ps). set m) \<and> distinct (map fst ?r)"
    by (rule fold_common_step) (use dist plans in \<open>auto simp: list_all_iff\<close>)
  have "set ?r = common_attributes plans"
  proof (rule set_eqI)
    fix kv :: "string \<times> string"
    obtain k v where kv: "kv = (k, v)" by (cases kv)
    have "kv \<in> set ?r \<longleftrightarrow> (\<forall>q \<in> set plans. (k, v) \<in> set (?fv q))"
      using f by (simp add: plans kv)
    also have "\<dots> \<longleftrightarrow> (\<forall>q \<in> set plans. first_value q k = Some v)"
      using mem by blast
    finally show "kv \<in> set ?r \<longleftrightarrow> kv \<in> common_attributes plans"
      by (simp add: common_attributes_def kv)
  qed
  with run f show ?thesis by blast
qed

lemma three_plans_attributes:
  "construct_launch_attributes (Some three_plans) True a = Inr [(''a'', ''1'')]"
  by (simp add: construct_launch_attributes_def three_plans_def example_plan_def common_step_def)

lemma prepare_attributes:
  "prepare e d = Inr (cfg, st) \<Longrightarrow>
   first_values (fmf_context (the_plan e)) = Inr (attributes cfg)
   \<and> construct_launch_attributes (my_run e) (suite_per_plan d) (attributes cfg) = Inr (launch_attributes cfg)"
  by (auto simp: prepare_def Let_def bind_e_eq_Inr effective_topology_def
           split: option.splits if_splits prod.splits)

text \<open>
  C3. With suite-per-plan, the launch attributes are the pairs of key and first context
  value that every plan of the run holds (for plans whose contexts are dictionaries with
  a first value for every key); the three plans with contexts a:1 b:2, a:1 b:3 and a:1 b:2
  give exactly a:1. Without suite-per-plan the attributes are returned as they are, and
  the import passes the first values of the context of its own plan.
\<close>

theorem launch_attributes_common:
  "(list_all wf_context plans \<and> plans \<noteq> [] \<longrightarrow>
      (\<exists>attrs. construct_launch_attributes (Some plans) True a = Inr attrs
         \<and> set attrs = common_attributes plans \<and> distinct (map fst attrs)))
   \<and> construct_launch_attributes (Some three_plans) True a = Inr [(''a'', ''1'')]
   \<and> construct_launch_attributes run False a = Inr a
   \<and> (prepare e d = Inr (cfg, st) \<longrightarrow>
        first_values (fmf_context (the_plan e)) = Inr (attributes cfg)
        \<and> construct_launch_attributes (my_run e) (suite_per_plan d) (attributes cfg)
            = Inr (launch_attributes cfg))"
proof -
  have off: "construct_launch_attributes run False a = Inr a"
    by (simp add: construct_launch_attributes_def split: option.splits)
  show ?thesis
    using construct_launch_attributes_common [of plans a] three_plans_attributes [of a] off
      prepare_attributes [of e d cfg st]
    by blast
qed

lemma prepare_ok:
  assumes "my_run e = Some plans" and "plans \<noteq> []"
    and "first_values (fmf_context (the_plan e)) = Inr attrs"
    and "construct_launch_attributes (my_run e) (suite_per_plan d) attrs = Inr lattrs"
  shows "\<exists>cfg st. prepare e d = Inr (cfg, st)"
  using assms by (simp add: prepare_def Let_def effective_topology_def split: prod.splits)

lemma example_env_facts:
  "my_run example_env = Some three_plans"
  "three_plans \<noteq> []"
  "first_values (fmf_context (the_plan example_env)) = Inr [(''a'', ''1''), (''b'', ''2'')]"
  by (simp_all add: example_env_def three_plans_def example_plan_def)

lemma example_data_flags:
  "\<not> launch_per_plan example_data" "\<not> suite_per_plan example_data"
  by (simp_all add: example_data_def)

theorem exactly_one_topology_witness:
  "launch_per_plan (example_data\<lparr>launch_per_plan := True, suite_per_plan := True\<rparr>)
   \<and> suite_per_plan (example_data\<lparr>launch_per_plan := True, suite_per_plan := True\<rparr>)
   \<and> effective_topology
        (fst (check_options (example_data\<lparr>launch_per_plan := True, suite_per_plan := True\<rparr>)))
       = (True, False)
   \<and> hd (snd (check_options (example_data\<lparr>launch_per_plan := True, suite_per_plan := True\<rparr>)))
       = warn_mutually_exclusive
   \<and> \<not> launch_per_plan example_data \<and> \<not> suite_per_plan example_data
   \<and> effective_topology (fst (check_options example_data)) = (True, False)
   \<and> (\<exists>cfg st. prepare example_env (fst (check_options example_data)) = Inr (cfg, st)
         \<and> l_launch_per_plan cfg \<and> \<not> l_suite_per_plan cfg)"
proof -
  let ?both = "example_data\<lparr>launch_per_plan := True, suite_per_plan := True\<rparr>"
  have same: "fst (check_options example_data) = example_data"
    by (simp add: check_options_fst example_data_flags)
  have "construct_launch_attributes (my_run example_env) (suite_per_plan example_data)
          [(''a'', ''1''), (''b'', ''2'')] = Inr [(''a'', ''1''), (''b'', ''2'')]"
    by (simp add: construct_launch_attributes_def example_data_flags example_env_facts)
  then obtain cfg st where p: "prepare example_env example_data = Inr (cfg, st)"
    using prepare_ok [OF example_env_facts(1) example_env_facts(2) example_env_facts(3)] by blast
  have b: "launch_per_plan ?both \<and> suite_per_plan ?both" by simp
  note t1 = exactly_one_topology [of ?both example_env cfg st]
  note t2 = exactly_one_topology [of example_data example_env cfg st]
  from t1 b have c1: "effective_topology (fst (check_options ?both)) = (True, False)
      \<and> hd (snd (check_options ?both)) = warn_mutually_exclusive" by blast
  from t2 example_data_flags have c2: "effective_topology (fst (check_options example_data)) = (True, False)"
    by blast
  from t2 p same have "(l_launch_per_plan cfg, l_suite_per_plan cfg)
      = effective_topology (fst (check_options example_data))" by simp
  with c2 have c3: "l_launch_per_plan cfg \<and> \<not> l_suite_per_plan cfg" by simp
  from p same c3 have c4: "\<exists>cfg st. prepare example_env (fst (check_options example_data)) = Inr (cfg, st)
         \<and> l_launch_per_plan cfg \<and> \<not> l_suite_per_plan cfg" by auto
  show ?thesis using b c1 c2 c4 example_data_flags by blast
qed

theorem launch_attributes_common_witness:
  "list_all wf_context three_plans \<and> three_plans \<noteq> []
   \<and> construct_launch_attributes (Some three_plans) True [] = Inr [(''a'', ''1'')]
   \<and> common_attributes three_plans = {(''a'', ''1'')}
   \<and> (\<exists>cfg st. prepare example_env example_data = Inr (cfg, st)
         \<and> launch_attributes cfg = [(''a'', ''1''), (''b'', ''2'')])"
proof -
  have wf: "list_all wf_context three_plans \<and> three_plans \<noteq> []"
    by (simp add: three_plans_def example_plan_def wf_context_def)
  have cl: "construct_launch_attributes (my_run example_env) (suite_per_plan example_data)
          [(''a'', ''1''), (''b'', ''2'')] = Inr [(''a'', ''1''), (''b'', ''2'')]"
    by (simp add: construct_launch_attributes_def example_data_flags example_env_facts)
  then obtain cfg st where p: "prepare example_env example_data = Inr (cfg, st)"
    using prepare_ok [OF example_env_facts(1) example_env_facts(2) example_env_facts(3)] by blast
  note t = launch_attributes_common
             [of three_plans "[]" "my_run example_env" example_env example_data cfg st]
  from t wf obtain attrs where a: "construct_launch_attributes (Some three_plans) True [] = Inr attrs"
    "set attrs = common_attributes three_plans" by blast
  from t have ex: "construct_launch_attributes (Some three_plans) True [] = Inr [(''a'', ''1'')]"
    by blast
  with a(1) have "attrs = [(''a'', ''1'')]" by simp
  with a(2) have ca: "common_attributes three_plans = {(''a'', ''1'')}" by simp
  from t p have "first_values (fmf_context (the_plan example_env)) = Inr (attributes cfg)"
    "construct_launch_attributes (my_run example_env) (suite_per_plan example_data) (attributes cfg)
       = Inr (launch_attributes cfg)" by blast+
  with cl have "launch_attributes cfg = [(''a'', ''1''), (''b'', ''2'')]"
    by (simp add: example_env_facts)
  with p wf ex ca show ?thesis by blast
qed

section \<open>Properties of the defect type resolution\<close>

lemma group_locator_candidate:
  "group_locator lower sub_types name = candidate lower name sub_types"
  by (induction sub_types) (simp_all add: group_locator_def candidate_def matches_def)

lemma search_groups_outcome:
  assumes "\<not> truthy acc"
  shows "bind_e (search_groups lower dts name gs acc)
           (\<lambda>dt_locator.
              case dt_locator of
                None \<Rightarrow> Inl (ReportError (DefectTypeNotDefined name))
              | Some l \<Rightarrow> if l = [] then Inl (ReportError (DefectTypeNotDefined name))
                          else Inr (l, cs))
         = (case List.map_filter (group_verdict lower name dts) gs of
              [] \<Rightarrow> Inl (ReportError (DefectTypeNotDefined name))
            | verdict # _ \<Rightarrow> (case verdict of Inl err \<Rightarrow> Inl err | Inr l \<Rightarrow> Inr (l, cs)))"
  using assms
proof (induction gs arbitrary: acc)
  case Nil
  then show ?case by (auto simp: truthy_def List.map_filter_simps split: option.splits)
next
  case (Cons g gs)
  show ?case
  proof (cases "map_of dts g")
    case None
    then show ?thesis by (simp add: List.map_filter_simps group_verdict_def)
  next
    case (Some sub_types)
    show ?thesis
    proof (cases "truthy (candidate lower name sub_types)")
      case True
      then obtain l where "candidate lower name sub_types = Some l" "l \<noteq> []"
        by (auto simp: truthy_def split: option.splits)
      with Some True show ?thesis
        by (simp add: List.map_filter_simps group_verdict_def group_locator_candidate)
    next
      case False
      then have v: "group_verdict lower name dts g = None"
        using Some by (auto simp: group_verdict_def truthy_def split: option.splits)
      from False Some Cons.IH [OF False] v show ?thesis
        by (simp add: List.map_filter_simps group_locator_candidate)
    qed
  qed
qed

lemma settings_fetch:
  "rp_api_get srv d ''settings'' cs =
     (if ok (srv (length cs) (settings_request d))
      then Inr (srv (length cs) (settings_request d), cs @ [settings_request d])
      else Inl (ReportError (NonOkStatus (status_code (srv (length cs) (settings_request d)))
                               (resp_text (srv (length cs) (settings_request d))))))"
  by (simp add: rp_api_get_def rp_api_def settings_request_def Let_def)

lemma get_defect_type_locator_resolution:
  "get_defect_type_locator lower srv d dtype cs = resolution lower srv d dtype cs"
proof (cases "truthy dtype")
  case False
  then show ?thesis
    by (auto simp: get_defect_type_locator_def resolution_def truthy_def split: option.splits)
next
  case True
  then obtain name where n: "dtype = Some name" "name \<noteq> []"
    by (auto simp: truthy_def split: option.splits)
  define r where "r = srv (length cs) (settings_request d)"
  show ?thesis
  proof (cases "ok r")
    case False
    then show ?thesis
      using n by (simp add: get_defect_type_locator_def resolution_def settings_fetch r_def Let_def)
  next
    case ok: True
    show ?thesis
    proof (cases "yaml_kind r")
      case NotAMapping
      with ok n show ?thesis
        by (simp add: get_defect_type_locator_def resolution_def settings_fetch r_def [symmetric]
              Let_def yaml_to_dict_def)
    next
      case NotYAML
      with ok n show ?thesis
        by (simp add: get_defect_type_locator_def resolution_def settings_fetch r_def [symmetric]
              Let_def yaml_to_dict_def)
    next
      case Mapping
      show ?thesis
      proof (cases "subTypes r")
        case None
        with Mapping ok n show ?thesis
          by (simp add: get_defect_type_locator_def resolution_def settings_fetch r_def [symmetric]
                Let_def yaml_to_dict_def)
      next
        case (Some dts)
        have nt: "\<not> truthy None" by (simp add: truthy_def)
        note s = search_groups_outcome [OF nt, of lower dts name groups_to_search
                                          "cs @ [settings_request d]"]
        show ?thesis
        proof (cases "dts = []")
          case True
          with Some Mapping ok n show ?thesis
            by (simp add: get_defect_type_locator_def resolution_def settings_fetch
                  r_def [symmetric] Let_def yaml_to_dict_def)
        next
          case False
          have l: "get_defect_type_locator lower srv d dtype cs =
                bind_e (search_groups lower dts name groups_to_search None)
                  (\<lambda>dt_locator.
                     case dt_locator of
                       None \<Rightarrow> Inl (ReportError (DefectTypeNotDefined name))
                     | Some l \<Rightarrow> if l = [] then Inl (ReportError (DefectTypeNotDefined name))
                                 else Inr (l, cs @ [settings_request d]))"
            using False Some Mapping ok n
            by (simp add: get_defect_type_locator_def settings_fetch r_def [symmetric]
                  yaml_to_dict_def)
          have r: "resolution lower srv d dtype cs =
                (case search_outcome lower name dts of
                   Inl err \<Rightarrow> Inl err
                 | Inr l \<Rightarrow> Inr (l, cs @ [settings_request d]))"
            using False Some Mapping ok n
            by (simp add: resolution_def r_def [symmetric] Let_def)
          show ?thesis
            unfolding l r s
            by (simp add: search_outcome_def groups_to_search_def split: list.splits sum.splits)
        qed
      qed
    qed
  qed
qed

lemma matches_fun: "matches lower name = (\<lambda>dt. lower (longName dt) = lower name)"
  by (simp add: fun_eq_iff matches_def)

lemma map_filter_Nil: "List.map_filter f xs = [] \<longleftrightarrow> list_all (\<lambda>x. f x = None) xs"
  by (induction xs) (simp_all add: List.map_filter_simps split: option.splits)

lemma map_filter_Cons_mem: "List.map_filter f xs = v # vs \<Longrightarrow> \<exists>x. f x = Some v"
  by (induction xs) (auto simp: List.map_filter_simps split: option.splits)

lemma group_verdict_None:
  "group_verdict lower name dts g = None \<longleftrightarrow>
     (case map_of dts g of
        None \<Rightarrow> False
      | Some sub_types \<Rightarrow>
          (case find (\<lambda>dt. lower (longName dt) = lower name) sub_types of
             None \<Rightarrow> True
           | Some dt \<Rightarrow> locator dt = []))"
  by (auto simp: group_verdict_def candidate_def matches_fun split: option.splits)

lemma group_verdict_Some:
  "group_verdict lower name dts g = Some v \<Longrightarrow> v \<noteq> Inl (ReportError (DefectTypeNotDefined n))"
  by (auto simp: group_verdict_def split: option.splits if_splits)

lemma search_outcome_cases:
  "(search_outcome lower name dts = Inl (ReportError (DefectTypeNotDefined name))
    \<and> list_all (\<lambda>g. group_verdict lower name dts g = None)
          [''TO_INVESTIGATE'', ''NO_DEFECT'', ''SYSTEM_ISSUE'', ''AUTOMATION_BUG'', ''PRODUCT_BUG''])
   \<or> ((\<forall>n. search_outcome lower name dts \<noteq> Inl (ReportError (DefectTypeNotDefined n)))
       \<and> \<not> list_all (\<lambda>g. group_verdict lower name dts g = None)
              [''TO_INVESTIGATE'', ''NO_DEFECT'', ''SYSTEM_ISSUE'', ''AUTOMATION_BUG'',
               ''PRODUCT_BUG''])"
proof -
  let ?gs = "[''TO_INVESTIGATE'', ''NO_DEFECT'', ''SYSTEM_ISSUE'', ''AUTOMATION_BUG'', ''PRODUCT_BUG'']"
  define vs where "vs = List.map_filter (group_verdict lower name dts) ?gs"
  have o: "search_outcome lower name dts =
             (case vs of [] \<Rightarrow> Inl (ReportError (DefectTypeNotDefined name)) | v # _ \<Rightarrow> v)"
    unfolding vs_def by (simp only: search_outcome_def)
  have e: "vs = [] \<longleftrightarrow> list_all (\<lambda>g. group_verdict lower name dts g = None) ?gs"
    unfolding vs_def by (rule map_filter_Nil)
  show ?thesis
  proof (cases vs)
    case Nil
    with o have "search_outcome lower name dts = Inl (ReportError (DefectTypeNotDefined name))"
      by simp
    moreover from e Nil have "list_all (\<lambda>g. group_verdict lower name dts g = None) ?gs"
      by blast
    ultimately show ?thesis by blast
  next
    case (Cons v rest)
    then obtain g where "group_verdict lower name dts g = Some v"
      using map_filter_Cons_mem [of "group_verdict lower name dts" ?gs v rest]
      unfolding vs_def by blast
    then have "\<forall>n. v \<noteq> Inl (ReportError (DefectTypeNotDefined n))"
      using group_verdict_Some by blast
    moreover from o Cons have "search_outcome lower name dts = v" by simp
    moreover from e Cons have "\<not> list_all (\<lambda>g. group_verdict lower name dts g = None) ?gs"
      by blast
    ultimately show ?thesis by blast
  qed
qed

lemma search_outcome_not_defined:
  "search_outcome lower name dts = Inl (ReportError (DefectTypeNotDefined n)) \<longleftrightarrow>
     n = name
     \<and> list_all (\<lambda>g. case map_of dts g of
                        None \<Rightarrow> False
                      | Some sub_types \<Rightarrow>
                          (case find (\<lambda>dt. lower (longName dt) = lower name) sub_types of
                             None \<Rightarrow> True
                           | Some dt \<Rightarrow> locator dt = []))
         [''TO_INVESTIGATE'', ''NO_DEFECT'', ''SYSTEM_ISSUE'', ''AUTOMATION_BUG'', ''PRODUCT_BUG'']"
  (is "?S = Inl (ReportError (DefectTypeNotDefined n)) \<longleftrightarrow> n = name \<and> ?L")
proof -
  from search_outcome_cases [of lower name dts]
  have c: "(?S = Inl (ReportError (DefectTypeNotDefined name)) \<and> ?L)
           \<or> ((\<forall>n. ?S \<noteq> Inl (ReportError (DefectTypeNotDefined n))) \<and> \<not> ?L)"
    unfolding group_verdict_None .
  show ?thesis
  proof (cases ?L)
    case True
    with c have "?S = Inl (ReportError (DefectTypeNotDefined name))" by blast
    then have "?S = Inl (ReportError (DefectTypeNotDefined n)) \<longleftrightarrow> n = name" by auto
    with True show ?thesis by blast
  next
    case False
    with c have "?S \<noteq> Inl (ReportError (DefectTypeNotDefined n))" by blast
    with False show ?thesis by blast
  qed
qed

lemma resolution_search:
  assumes "name \<noteq> []" and "ok (srv (length cs) (settings_request d))"
    and "yaml_kind (srv (length cs) (settings_request d)) = Mapping"
    and "subTypes (srv (length cs) (settings_request d)) = Some dts" and "dts \<noteq> []"
  shows "resolution lower srv d (Some name) cs =
           (case search_outcome lower name dts of
              Inl err \<Rightarrow> Inl err
            | Inr l \<Rightarrow> Inr (l, cs @ [settings_request d]))"
  using assms by (simp add: resolution_def Let_def)

lemma resolution_default:
  assumes "name \<noteq> []" and "ok (srv (length cs) (settings_request d))"
    and "yaml_kind (srv (length cs) (settings_request d)) = Mapping"
    and "subTypes (srv (length cs) (settings_request d)) = None
         \<or> subTypes (srv (length cs) (settings_request d)) = Some []"
  shows "resolution lower srv d (Some name) cs = Inr (''ti001'', cs @ [settings_request d])"
  using assms by (auto simp: resolution_def Let_def)

lemma resolution_raises:
  assumes "resolution lower srv d dtype cs = Inl err"
  shows "\<exists>name. dtype = Some name \<and> name \<noteq> []
           \<and> (\<not> ok (srv (length cs) (settings_request d))
               \<and> err = ReportError (NonOkStatus (status_code (srv (length cs) (settings_request d)))
                                      (resp_text (srv (length cs) (settings_request d))))
               \<or> ok (srv (length cs) (settings_request d))
                 \<and> yaml_kind (srv (length cs) (settings_request d)) = NotAMapping
                 \<and> err = GeneralError
               \<or> ok (srv (length cs) (settings_request d))
                 \<and> yaml_kind (srv (length cs) (settings_request d)) = NotYAML
                 \<and> err = YAMLError
               \<or> ok (srv (length cs) (settings_request d))
                 \<and> yaml_kind (srv (length cs) (settings_request d)) = Mapping
                 \<and> (\<exists>dts. subTypes (srv (length cs) (settings_request d)) = Some dts
                       \<and> dts \<noteq> [] \<and> search_outcome lower name dts = Inl err))"
proof -
  define r where "r = srv (length cs) (settings_request d)"
  from assms obtain name where n: "dtype = Some name" "name \<noteq> []"
    by (cases dtype) (auto simp: resolution_def split: if_splits)
  have "\<not> ok r \<and> err = ReportError (NonOkStatus (status_code r) (resp_text r))
      \<or> ok r \<and> yaml_kind r = NotAMapping \<and> err = GeneralError
      \<or> ok r \<and> yaml_kind r = NotYAML \<and> err = YAMLError
      \<or> ok r \<and> yaml_kind r = Mapping
         \<and> (\<exists>dts. subTypes r = Some dts \<and> dts \<noteq> [] \<and> search_outcome lower name dts = Inl err)"
  proof (cases "ok r")
    case False
    with assms n show ?thesis by (auto simp: resolution_def Let_def r_def [symmetric])
  next
    case True
    show ?thesis
    proof (cases "yaml_kind r")
      case Mapping
      show ?thesis
      proof (cases "subTypes r")
        case None
        with Mapping True assms n show ?thesis
          by (simp add: resolution_def Let_def r_def [symmetric])
      next
        case (Some dts)
        show ?thesis
        proof (cases "dts = []")
          case e: True
          with Some Mapping True assms n show ?thesis
            by (simp add: resolution_def Let_def r_def [symmetric])
        next
          case ne: False
          from resolution_search [of name srv cs d dts lower] n(2) True Mapping Some ne
          have "resolution lower srv d (Some name) cs =
                  (case search_outcome lower name dts of
                     Inl err \<Rightarrow> Inl err
                   | Inr l \<Rightarrow> Inr (l, cs @ [settings_request d]))"
            by (simp add: r_def)
          with assms n(1) have "search_outcome lower name dts = Inl err"
            by (cases "search_outcome lower name dts") simp_all
          with Some Mapping True ne show ?thesis by blast
        qed
      qed
    next
      case NotAMapping
      with True assms n show ?thesis by (auto simp: resolution_def Let_def r_def [symmetric])
    next
      case NotYAML
      with True assms n show ?thesis by (auto simp: resolution_def Let_def r_def [symmetric])
    qed
  qed
  with n show ?thesis unfolding r_def by blast
qed

lemma resolution_not_defined:
  "resolution lower srv d dtype cs = Inl (ReportError (DefectTypeNotDefined n)) \<longleftrightarrow>
     dtype = Some n \<and> n \<noteq> []
     \<and> ok (srv (length cs) (settings_request d))
     \<and> yaml_kind (srv (length cs) (settings_request d)) = Mapping
     \<and> (\<exists>dts. subTypes (srv (length cs) (settings_request d)) = Some dts \<and> dts \<noteq> []
          \<and> list_all (\<lambda>g. case map_of dts g of
                             None \<Rightarrow> False
                           | Some sub_types \<Rightarrow>
                               (case find (\<lambda>dt. lower (longName dt) = lower n) sub_types of
                                  None \<Rightarrow> True
                                | Some dt \<Rightarrow> locator dt = []))
              [''TO_INVESTIGATE'', ''NO_DEFECT'', ''SYSTEM_ISSUE'', ''AUTOMATION_BUG'',
               ''PRODUCT_BUG''])"
  (is "?L \<longleftrightarrow> ?R")
proof
  assume ?L
  from resolution_raises [OF this] obtain name dts where
    n: "dtype = Some name" "name \<noteq> []"
    and r: "ok (srv (length cs) (settings_request d))"
      "yaml_kind (srv (length cs) (settings_request d)) = Mapping"
      "subTypes (srv (length cs) (settings_request d)) = Some dts" "dts \<noteq> []"
      "search_outcome lower name dts = Inl (ReportError (DefectTypeNotDefined n))"
    by blast
  from r(5) have "n = name" and
    "list_all (\<lambda>g. case map_of dts g of
                             None \<Rightarrow> False
                           | Some sub_types \<Rightarrow>
                               (case find (\<lambda>dt. lower (longName dt) = lower name) sub_types of
                                  None \<Rightarrow> True
                                | Some dt \<Rightarrow> locator dt = []))
              [''TO_INVESTIGATE'', ''NO_DEFECT'', ''SYSTEM_ISSUE'', ''AUTOMATION_BUG'',
               ''PRODUCT_BUG'']"
    unfolding search_outcome_not_defined by blast+
  with n r show ?R by blast
next
  assume ?R
  then obtain dts where n: "dtype = Some n" "n \<noteq> []"
    and r: "ok (srv (length cs) (settings_request d))"
      "yaml_kind (srv (length cs) (settings_request d)) = Mapping"
      "subTypes (srv (length cs) (settings_request d)) = Some dts" "dts \<noteq> []"
    and l: "list_all (\<lambda>g. case map_of dts g of
                             None \<Rightarrow> False
                           | Some sub_types \<Rightarrow>
                               (case find (\<lambda>dt. lower (longName dt) = lower n) sub_types of
                                  None \<Rightarrow> True
                                | Some dt \<Rightarrow> locator dt = []))
              [''TO_INVESTIGATE'', ''NO_DEFECT'', ''SYSTEM_ISSUE'', ''AUTOMATION_BUG'',
               ''PRODUCT_BUG'']"
    by blast
  from l have "search_outcome lower n dts = Inl (ReportError (DefectTypeNotDefined n))"
    unfolding search_outcome_not_defined by blast
  with resolution_search [of n srv cs d dts lower] n r show ?L by simp
qed

lemmas resolve_defs =
  get_defect_type_locator_def rp_api_get_def rp_api_def yaml_to_dict_def groups_to_search_def
  group_locator_def ascii_lower_def truthy_def settings_request_def Let_def ok_response_def
  example_defect_types_def

lemma resolve_without_name:
  "get_defect_type_locator ascii_lower settings_service example_data None [] = Inr (''ti001'', [])"
  "get_defect_type_locator ascii_lower settings_service example_data (Some []) [] = Inr (''ti001'', [])"
  by (simp_all add: get_defect_type_locator_def)

lemma resolve_without_sub_types:
  "get_defect_type_locator ascii_lower bare_service example_data (Some ''No Such Type'') []
     = Inr (''ti001'', [settings_request example_data])"
  by (simp add: resolve_defs bare_service_def)

lemma resolve_missing_group:
  "get_defect_type_locator ascii_lower one_group_service example_data (Some ''idle'') []
     = Inl KeyError"
  by (simp add: resolve_defs one_group_service_def)

lemma resolve_blank_locator:
  "get_defect_type_locator ascii_lower blank_locator_service example_data (Some ''idle'') []
     = Inl (ReportError (DefectTypeNotDefined ''idle''))"
  "matches ascii_lower ''idle'' \<lparr>locator = [], longName = ''Idle''\<rparr>"
  by (simp_all add: resolve_defs blank_locator_service_def matches_def)

lemma resolve_failures:
  "get_defect_type_locator ascii_lower failing_service example_data (Some ''idle'') []
     = Inl (ReportError (NonOkStatus 500 ''Internal Server Error''))"
  "get_defect_type_locator ascii_lower list_service example_data (Some ''idle'') []
     = Inl GeneralError"
  by (simp_all add: resolve_defs failing_service_def list_service_def)

lemma list_service_reply:
  "ok (list_service 0 (settings_request example_data))"
  "subTypes (list_service 0 (settings_request example_data)) = None"
  by (simp_all add: list_service_def ok_response_def)

text \<open>
  C4 as stated fails. Without a name, absent or empty, no settings request is sent: the
  list of requests stays empty. With a name and settings that hold no sub-types no error
  is raised although no group contains a match. With settings that hold the first group
  only, a name without a match there raises \<open>KeyError\<close>. A sub-type whose long name matches
  but whose locator is empty does not win: the error is raised although a group contains
  a match. A failed request and a text that is not a mapping raise errors of their own.
\<close>

theorem defect_type_locator_counterexample:
  "get_defect_type_locator ascii_lower settings_service example_data None [] = Inr (''ti001'', [])
   \<and> get_defect_type_locator ascii_lower settings_service example_data (Some []) []
       = Inr (''ti001'', [])
   \<and> get_defect_type_locator ascii_lower bare_service example_data (Some ''No Such Type'') []
       = Inr (''ti001'', [settings_request example_data])
   \<and> get_defect_type_locator ascii_lower one_group_service example_data (Some ''idle'') []
       = Inl KeyError
   \<and> get_defect_type_locator ascii_lower blank_locator_service example_data (Some ''idle'') []
       = Inl (ReportError (DefectTypeNotDefined ''idle''))
   \<and> matches ascii_lower ''idle'' \<lparr>locator = [], longName = ''Idle''\<rparr>
   \<and> get_defect_type_locator ascii_lower failing_service example_data (Some ''idle'') []
       = Inl (ReportError (NonOkStatus 500 ''Internal Server Error''))
   \<and> get_defect_type_locator ascii_lower list_service example_data (Some ''idle'') []
       = Inl GeneralError"
  using resolve_without_name resolve_without_sub_types resolve_missing_group
    resolve_blank_locator resolve_failures
  by blast

text \<open>
  C4, amended. Without a name the resolution returns \<open>ti001\<close> and sends no request. With
  a name it sends the one request for the settings, and a failed request or a text that
  is not a mapping raises its own error; settings without sub-types give \<open>ti001\<close>;
  otherwise the groups TO_INVESTIGATE, NO_DEFECT, SYSTEM_ISSUE, AUTOMATION_BUG and
  PRODUCT_BUG are searched in this order, the candidate of a group being the locator of
  its first sub-type whose long name equals the name in lower case: the first group
  whose candidate is not empty wins, a group that the settings do not hold raises
  \<open>KeyError\<close> when the search reaches it, and the error for a name that is not defined is
  raised exactly when the settings hold all five groups and in each of them no sub-type
  matches or the first that matches has an empty locator.
\<close>

theorem defect_type_locator_resolution:
  "get_defect_type_locator lower srv d dtype cs = resolution lower srv d dtype cs
   \<and> (get_defect_type_locator lower srv d dtype cs = Inl (ReportError (DefectTypeNotDefined n))
        \<longleftrightarrow>
        dtype = Some n \<and> n \<noteq> []
        \<and> ok (srv (length cs) (settings_request d))
        \<and> yaml_kind (srv (length cs) (settings_request d)) = Mapping
        \<and> (\<exists>dts. subTypes (srv (length cs) (settings_request d)) = Some dts \<and> dts \<noteq> []
             \<and> list_all (\<lambda>g. case map_of dts g of
                                None \<Rightarrow> False
                              | Some sub_types \<Rightarrow>
                                  (case find (\<lambda>dt. lower (longName dt) = lower n) sub_types of
                                     None \<Rightarrow> True
                                   | Some dt \<Rightarrow> locator dt = []))
                 [''TO_INVESTIGATE'', ''NO_DEFECT'', ''SYSTEM_ISSUE'', ''AUTOMATION_BUG'',
                  ''PRODUCT_BUG'']))"
  unfolding get_defect_type_locator_resolution
  using resolution_not_defined [of lower srv d dtype cs n] by blast

lemmas resolution_defs =
  resolution_def search_outcome_def group_verdict_def candidate_def matches_def
  List.map_filter_simps ascii_lower_def settings_request_def Let_def ok_response_def
  example_defect_types_def

lemma resolution_examples:
  "resolution ascii_lower settings_service example_data (Some ''idle'') []
     = Inr (''pb002'', [settings_request example_data])"
  "resolution ascii_lower one_group_service example_data (Some ''FLAKY'') []
     = Inr (''ti002'', [settings_request example_data])"
  "resolution ascii_lower settings_service example_data None [] = Inr (''ti001'', [])"
  by (simp_all add: resolution_defs settings_service_def one_group_service_def)

lemma no_such_type_examples:
  "ok (settings_service 0 (settings_request example_data))"
  "yaml_kind (settings_service 0 (settings_request example_data)) = Mapping"
  "subTypes (settings_service 0 (settings_request example_data)) = Some example_defect_types"
  "example_defect_types \<noteq> []"
  "list_all (\<lambda>g. case map_of example_defect_types g of
                    None \<Rightarrow> False
                  | Some sub_types \<Rightarrow>
                      (case find (\<lambda>dt. ascii_lower (longName dt) = ascii_lower ''No Such Type'')
                              sub_types of
                         None \<Rightarrow> True
                       | Some dt \<Rightarrow> locator dt = []))
     [''TO_INVESTIGATE'', ''NO_DEFECT'', ''SYSTEM_ISSUE'', ''AUTOMATION_BUG'', ''PRODUCT_BUG'']"
  by (simp_all add: settings_service_def ok_response_def example_defect_types_def ascii_lower_def)

theorem defect_type_locator_resolution_witness:
  "get_defect_type_locator ascii_lower settings_service example_data (Some ''idle'') []
     = Inr (''pb002'', [settings_request example_data])
   \<and> get_defect_type_locator ascii_lower one_group_service example_data (Some ''FLAKY'') []
       = Inr (''ti002'', [settings_request example_data])
   \<and> get_defect_type_locator ascii_lower settings_service example_data None []
       = Inr (''ti001'', [])
   \<and> get_defect_type_locator ascii_lower settings_service example_data (Some ''No Such Type'') []
       = Inl (ReportError (DefectTypeNotDefined ''No Such Type''))"
proof -
  note t = defect_type_locator_resolution [where lower = ascii_lower and d = example_data and cs = "[]"]
  from t [where srv = settings_service and dtype = "Some ''idle''"]
  have 1: "get_defect_type_locator ascii_lower settings_service example_data (Some ''idle'') []
     = Inr (''pb002'', [settings_request example_data])"
    by (simp only: resolution_examples)
  from t [where srv = one_group_service and dtype = "Some ''FLAKY''"]
  have 2: "get_defect_type_locator ascii_lower one_group_service example_data (Some ''FLAKY'') []
       = Inr (''ti002'', [settings_request example_data])"
    by (simp only: resolution_examples)
  from t [where srv = settings_service and dtype = None]
  have 3: "get_defect_type_locator ascii_lower settings_service example_data None []
       = Inr (''ti001'', [])"
    by (simp only: resolution_examples)
  have ne: "''No Such Type'' \<noteq> []" by simp
  note t4 = t [where srv = settings_service and dtype = "Some ''No Such Type''"
                 and n = "''No Such Type''", unfolded list.size]
  from t4 no_such_type_examples ne
  have 4: "get_defect_type_locator ascii_lower settings_service example_data
             (Some ''No Such Type'') [] = Inl (ReportError (DefectTypeNotDefined ''No Such Type''))"
    by blast
  from 1 2 3 4 show ?thesis by blast
qed

text \<open>
  C10 as stated fails. A settings reply that is a success but whose text is a list, not
  a mapping, holds no sub-types, and the resolution raises \<open>GeneralError\<close> instead of
  returning \<open>ti001\<close>. And the error for a name that is not defined is raised although a
  sub-type matches, when the locator of that sub-type is empty.
\<close>

theorem default_locator_counterexample:
  "ok (list_service 0 (settings_request example_data))
   \<and> subTypes (list_service 0 (settings_request example_data)) = None
   \<and> get_defect_type_locator ascii_lower list_service example_data (Some ''idle'') []
       = Inl GeneralError
   \<and> subTypes (blank_locator_service 0 (settings_request example_data))
       = Some [(''TO_INVESTIGATE'', [\<lparr>locator = [], longName = ''Idle''\<rparr>]),
               (''NO_DEFECT'', []), (''SYSTEM_ISSUE'', []), (''AUTOMATION_BUG'', []),
               (''PRODUCT_BUG'', [])]
   \<and> ascii_lower (longName \<lparr>locator = [], longName = ''Idle''\<rparr>) = ascii_lower ''idle''
   \<and> get_defect_type_locator ascii_lower blank_locator_service example_data (Some ''idle'') []
       = Inl (ReportError (DefectTypeNotDefined ''idle''))"
proof -
  have "subTypes (blank_locator_service 0 (settings_request example_data))
       = Some [(''TO_INVESTIGATE'', [\<lparr>locator = [], longName = ''Idle''\<rparr>]),
               (''NO_DEFECT'', []), (''SYSTEM_ISSUE'', []), (''AUTOMATION_BUG'', []),
               (''PRODUCT_BUG'', [])]"
    by (simp add: blank_locator_service_def ok_response_def)
  moreover have "ascii_lower (longName \<lparr>locator = [], longName = ''Idle''\<rparr>) = ascii_lower ''idle''"
    by (simp add: ascii_lower_def)
  ultimately show ?thesis
    using list_service_reply resolve_failures(2) resolve_blank_locator(1) by blast
qed

text \<open>
  C10, amended. When the settings request succeeds and its text is a mapping that holds
  no sub-types, none at all or an empty dictionary, resolving a name that is not empty
  returns \<open>ti001\<close>; and the error for a name that is not defined is raised only when the
  settings hold sub-types, among them all five groups, and in each group no sub-type has
  the name as its long name in lower case, or the first that has it has an empty locator.
\<close>

theorem default_locator_without_sub_types:
  "(name \<noteq> [] \<and> ok (srv (length cs) (settings_request d))
      \<and> yaml_kind (srv (length cs) (settings_request d)) = Mapping
      \<and> (subTypes (srv (length cs) (settings_request d)) = None
          \<or> subTypes (srv (length cs) (settings_request d)) = Some []) \<longrightarrow>
      get_defect_type_locator lower srv d (Some name) cs
        = Inr (''ti001'', cs @ [settings_request d]))
   \<and> (get_defect_type_locator lower srv d dtype cs = Inl (ReportError (DefectTypeNotDefined n))
        \<longrightarrow>
        (\<exists>dts. subTypes (srv (length cs) (settings_request d)) = Some dts \<and> dts \<noteq> []
           \<and> list_all (\<lambda>g. case map_of dts g of
                              None \<Rightarrow> False
                            | Some sub_types \<Rightarrow>
                                (case find (\<lambda>dt. lower (longName dt) = lower n) sub_types of
                                   None \<Rightarrow> True
                                 | Some dt \<Rightarrow> locator dt = []))
               [''TO_INVESTIGATE'', ''NO_DEFECT'', ''SYSTEM_ISSUE'', ''AUTOMATION_BUG'',
                ''PRODUCT_BUG'']))"
  unfolding get_defect_type_locator_resolution
  using resolution_default [of name srv cs d lower]
    resolution_not_defined [of lower srv d dtype cs n]
  by blast

lemma bare_service_reply:
  "ok (bare_service 0 (settings_request example_data))"
  "yaml_kind (bare_service 0 (settings_request example_data)) = Mapping"
  "subTypes (bare_service 0 (settings_request example_data)) = None"
  by (simp_all add: bare_service_def ok_response_def)

lemma resolve_no_such_type:
  "get_defect_type_locator ascii_lower settings_service example_data (Some ''No Such Type'') []
     = Inl (ReportError (DefectTypeNotDefined ''No Such Type''))"
  by (simp add: resolve_defs settings_service_def)

theorem default_locator_without_sub_types_witness:
  "''idle'' \<noteq> []
   \<and> ok (bare_service 0 (settings_request example_data))
   \<and> yaml_kind (bare_service 0 (settings_request example_data)) = Mapping
   \<and> subTypes (bare_service 0 (settings_request example_data)) = None
   \<and> get_defect_type_locator ascii_lower bare_service example_data (Some ''idle'') []
       = Inr (''ti001'', [settings_request example_data])
   \<and> get_defect_type_locator ascii_lower settings_service example_data (Some ''No Such Type'') []
       = Inl (ReportError (DefectTypeNotDefined ''No Such Type''))
   \<and> (\<exists>dts. subTypes (settings_service 0 (settings_request example_data)) = Some dts
         \<and> dts \<noteq> []
         \<and> list_all (\<lambda>g. case map_of dts g of
                            None \<Rightarrow> False
                          | Some sub_types \<Rightarrow>
                              (case find (\<lambda>dt. ascii_lower (longName dt)
                                                  = ascii_lower ''No Such Type'') sub_types of
                                 None \<Rightarrow> True
                               | Some dt \<Rightarrow> locator dt = []))
             [''TO_INVESTIGATE'', ''NO_DEFECT'', ''SYSTEM_ISSUE'', ''AUTOMATION_BUG'',
              ''PRODUCT_BUG''])"
proof -
  have ne: "''idle'' \<noteq> []" by simp
  note t1 = default_locator_without_sub_types
    [where name = "''idle''" and srv = bare_service and d = example_data and cs = "[]"
       and lower = ascii_lower]
  note t2 = default_locator_without_sub_types
    [where srv = settings_service and d = example_data and cs = "[]" and lower = ascii_lower
       and dtype = "Some ''No Such Type''" and n = "''No Such Type''", unfolded list.size]
  from t1 ne bare_service_reply
  have 1: "get_defect_type_locator ascii_lower bare_service example_data (Some ''idle'') []
       = Inr (''ti001'', [settings_request example_data])"
    by (simp only: list.size append_Nil) blast
  from t2 resolve_no_such_type
  have 2: "\<exists>dts. subTypes (settings_service 0 (settings_request example_data)) = Some dts
         \<and> dts \<noteq> []
         \<and> list_all (\<lambda>g. case map_of dts g of
                            None \<Rightarrow> False
                          | Some sub_types \<Rightarrow>
                              (case find (\<lambda>dt. ascii_lower (longName dt)
                                                  = ascii_lower ''No Such Type'') sub_types of
                                 None \<Rightarrow> True
                               | Some dt \<Rightarrow> locator dt = []))
             [''TO_INVESTIGATE'', ''NO_DEFECT'', ''SYSTEM_ISSUE'', ''AUTOMATION_BUG'',
              ''PRODUCT_BUG'']"
    by blast
  from ne bare_service_reply 1 resolve_no_such_type 2 show ?thesis by blast
qed

end
